theory Spec2Isabelle
  imports Main
begin

section \<open>JavaScript values, errors and statement text\<close>

text \<open>
  The database module (\<^verbatim>\<open>database.js\<close>) receives plain JavaScript objects. A value is
  one of the JSON-like shapes below; numbers are the integers (fractions, NaN and the
  infinities are outside this model). An object is the list of its own enumerable
  properties in the order \<^verbatim>\<open>Object.entries\<close> reports them.
\<close>

datatype jsval =
    JUndef
  | JNull
  | JBool bool
  | JNum int
  | JStr string
  | JArr "jsval list"
  | JObj "(string \<times> jsval) list"

type_synonym js_object = "(string \<times> jsval) list"
type_synonym row = "(string \<times> jsval) list"

text \<open>An \<^verbatim>\<open>Error\<close> object: the driver sets \<^verbatim>\<open>code\<close>, \<^verbatim>\<open>new Error(msg)\<close> leaves it undefined.\<close>

record js_error =
  code :: "string option"
  message :: string

definition Error :: "string \<Rightarrow> js_error" where
  "Error msg = \<lparr>code = None, message = msg\<rparr>"

text \<open>Truthiness, as tested by \<^verbatim>\<open>if (limit)\<close>, \<^verbatim>\<open>if (orderBy)\<close> and \<^verbatim>\<open>value.operator\<close>.\<close>

fun truthy :: "jsval \<Rightarrow> bool" where
  "truthy JUndef = False"
| "truthy JNull = False"
| "truthy (JBool b) = b"
| "truthy (JNum n) = (n \<noteq> 0)"
| "truthy (JStr s) = (s \<noteq> [])"
| "truthy (JArr xs) = True"
| "truthy (JObj ps) = True"

text \<open>Property read \<^verbatim>\<open>obj.name\<close>: \<^verbatim>\<open>undefined\<close> when the property is absent.\<close>

definition js_get :: "js_object \<Rightarrow> string \<Rightarrow> jsval" where
  "js_get obj name = (case map_of obj name of None \<Rightarrow> JUndef | Some v \<Rightarrow> v)"

text \<open>A destructuring default \<^verbatim>\<open>{ name = d } = options\<close> applies only to \<^verbatim>\<open>undefined\<close>.\<close>

definition with_default :: "jsval \<Rightarrow> jsval \<Rightarrow> jsval" where
  "with_default v d = (if v = JUndef then d else v)"

subsection \<open>Decimal numerals\<close>

text \<open>
  Number to string conversion, as the template literal does it for \<^verbatim>\<open>paramCount\<close>: the
  decimal digits, most significant first, with no leading zero.
\<close>

definition digit_char :: "nat \<Rightarrow> char" where
  "digit_char d = ''0123456789'' ! d"

function show_nat :: "nat \<Rightarrow> string" where
  "show_nat n = (if n < 10 then [digit_char n] else show_nat (n div 10) @ [digit_char (n mod 10)])"
  by pat_completeness auto
termination
  by (relation "measure (\<lambda>n. n)") auto

declare show_nat.simps [simp del]

definition show_int :: "int \<Rightarrow> string" where
  "show_int i = (if i < 0 then ''-'' @ show_nat (nat (- i)) else show_nat (nat i))"

subsection \<open>Joining, and conversion to string inside a template literal\<close>

text \<open>\<^verbatim>\<open>Array.prototype.join\<close>: the separator goes between the elements.\<close>

fun join :: "'a list \<Rightarrow> 'a list list \<Rightarrow> 'a list" where
  "join sep [] = []"
| "join sep [x] = x"
| "join sep (x # y # ys) = x @ sep @ join sep (y # ys)"

text \<open>
  \<^verbatim>\<open>`${v}`\<close> converts \<^verbatim>\<open>v\<close> to a string: an array joins its elements with a comma
  (\<^verbatim>\<open>null\<close> and \<^verbatim>\<open>undefined\<close> elements give the empty string), a plain object gives
  \<^verbatim>\<open>[object Object]\<close>.
\<close>

fun js_to_string :: "jsval \<Rightarrow> string"
  and js_elems_to_strings :: "jsval list \<Rightarrow> string list" where
  "js_to_string JUndef = ''undefined''"
| "js_to_string JNull = ''null''"
| "js_to_string (JBool b) = (if b then ''true'' else ''false'')"
| "js_to_string (JNum n) = show_int n"
| "js_to_string (JStr s) = s"
| "js_to_string (JArr xs) = join '','' (js_elems_to_strings xs)"
| "js_to_string (JObj ps) = ''[object Object]''"
| "js_elems_to_strings [] = []"
| "js_elems_to_strings (x # xs) =
     (if x = JNull \<or> x = JUndef then [] else js_to_string x) # js_elems_to_strings xs"

subsection \<open>Statement text\<close>

text \<open>
  A statement is assembled from template literals. Each literal is a sequence of pieces:
  verbatim text, and placeholders written \<^verbatim>\<open>$${paramCount++}\<close> (or \<^verbatim>\<open>$${index + 1}\<close>)
  in the source. \<open>render\<close> gives the characters sent to the driver.
\<close>

datatype piece = Txt string | Ph nat

fun render_piece :: "piece \<Rightarrow> string" where
  "render_piece (Txt s) = s"
| "render_piece (Ph n) = CHR ''$'' # show_nat n"

definition render :: "piece list \<Rightarrow> string" where
  "render ps = concat (map render_piece ps)"

text \<open>The placeholder numbers of a statement, in order of appearance.\<close>

fun placeholders :: "piece list \<Rightarrow> nat list" where
  "placeholders [] = []"
| "placeholders (Txt s # ps) = placeholders ps"
| "placeholders (Ph n # ps) = n # placeholders ps"

definition nl :: string where
  "nl = [CHR 0x0A]"

section \<open>Error mapping\<close>

text \<open>
  \<^verbatim>\<open>handleError(operation, error, context)\<close> throws in every branch of its switch; the
  model returns the thrown error on the left of a sum, so that a returned value would
  be an \<open>Inr\<close>.
\<close>

definition handleError :: "string \<Rightarrow> js_error \<Rightarrow> js_error + 'a" where
  "handleError operation error =
     (if code error = Some ''23505'' then Inl (Error ''Record with this identifier already exists'')
      else if code error = Some ''23503'' then Inl (Error ''Referenced record does not exist'')
      else if code error = Some ''23502'' then Inl (Error ''Required field is missing'')
      else if code error = Some ''42P01'' then Inl (Error ''Table does not exist'')
      else Inl (Error (''Database operation failed: '' @ message error)))"

text \<open>\<^verbatim>\<open>try { body } catch (error) { handleError(op, error, ...) }\<close>\<close>

definition try_catch :: "string \<Rightarrow> js_error + 'a \<Rightarrow> js_error + 'a" where
  "try_catch operation r = (case r of Inl e \<Rightarrow> handleError operation e | Inr v \<Rightarrow> Inr v)"

section \<open>The pool and the store\<close>

text \<open>
  The collaborators: \<^verbatim>\<open>pool.connect()\<close> either rejects with an error or hands out a
  client; \<^verbatim>\<open>client.query(text, values)\<close> sends the statement to the store, which
  answers with rows or throws a coded error; \<^verbatim>\<open>client.release()\<close> gives the client
  back. The world records every statement sent and the number of clients held.
\<close>

record world =
  connect_error :: "js_error option"
  respond :: "string \<Rightarrow> jsval list \<Rightarrow> js_error + row list"
  executed :: "(string \<times> jsval list) list"
  held :: nat
  totalCount :: nat
  idleCount :: nat
  waitingCount :: nat

definition pool_connect :: "world \<Rightarrow> js_error + world" where
  "pool_connect w =
     (case connect_error w of
        Some e \<Rightarrow> Inl e
      | None \<Rightarrow> Inr (w\<lparr>held := held w + 1\<rparr>))"

definition client_query :: "world \<Rightarrow> string \<Rightarrow> jsval list \<Rightarrow> (js_error + row list) \<times> world" where
  "client_query w text vals = (respond w text vals, w\<lparr>executed := executed w @ [(text, vals)]\<rparr>)"

definition client_release :: "world \<Rightarrow> world" where
  "client_release w = w\<lparr>held := held w - 1\<rparr>"

section \<open>Statement builders\<close>

subsection \<open>Insert\<close>

text \<open>
  \<^verbatim>\<open>addToDB\<close>, lines 71 to 80: the columns are the keys of \<^verbatim>\<open>data\<close>, the values its
  values, and column number \<^verbatim>\<open>index\<close> gets the placeholder \<^verbatim>\<open>$${index + 1}\<close>.
\<close>

definition insert_statement :: "string \<Rightarrow> js_object \<Rightarrow> string \<Rightarrow> piece list \<times> jsval list" where
  "insert_statement table data returnFields =
     (let columns = map fst data;
          vals = map snd data;
          placeholders = map (\<lambda>index. [Ph (index + 1)]) [0..<length columns];
          query = [Txt (nl @ ''      INSERT INTO ''), Txt table, Txt '' ('',
                   Txt (join '', '' columns), Txt ('')'' @ nl @ ''      VALUES ('')]
                  @ join [Txt '', ''] placeholders
                  @ [Txt ('')'' @ nl @ ''      RETURNING ''), Txt returnFields,
                     Txt ('';'' @ nl @ ''    '')]
      in (query, vals))"

subsection \<open>Conditions\<close>

text \<open>
  One pass of the loop over \<^verbatim>\<open>Object.entries(conditions)\<close> in \<^verbatim>\<open>getFromDB\<close> (lines 123
  to 139): the clause pushed to \<^verbatim>\<open>whereConditions\<close>, the values pushed to \<^verbatim>\<open>values\<close>
  and the new \<^verbatim>\<open>paramCount\<close>.
\<close>

definition in_placeholders :: "nat \<Rightarrow> jsval list \<Rightarrow> piece list" where
  "in_placeholders paramCount xs =
     join [Txt '', ''] (map (\<lambda>n. [Ph n]) [paramCount..<paramCount + length xs])"

definition find_condition :: "string \<Rightarrow> jsval \<Rightarrow> nat \<Rightarrow> piece list \<times> jsval list \<times> nat" where
  "find_condition key v paramCount =
     (case v of
        JNull \<Rightarrow> ([Txt key, Txt '' IS NULL''], [], paramCount)
      | JArr xs \<Rightarrow>
          ([Txt key, Txt '' IN (''] @ in_placeholders paramCount xs @ [Txt '')''],
           xs, paramCount + length xs)
      | JObj ps \<Rightarrow>
          (if truthy (js_get ps ''operator'')
           then ([Txt key, Txt '' '', Txt (js_to_string (js_get ps ''operator'')), Txt '' '',
                  Ph paramCount],
                 [js_get ps ''value''], paramCount + 1)
           else ([Txt key, Txt '' = '', Ph paramCount], [v], paramCount + 1))
      | _ \<Rightarrow> ([Txt key, Txt '' = '', Ph paramCount], [v], paramCount + 1))"

fun find_where_loop ::
  "js_object \<Rightarrow> piece list list \<Rightarrow> jsval list \<Rightarrow> nat \<Rightarrow> piece list list \<times> jsval list \<times> nat" where
  "find_where_loop [] whereConditions vals paramCount = (whereConditions, vals, paramCount)"
| "find_where_loop ((key, v) # rest) whereConditions vals paramCount =
     (case find_condition key v paramCount of
        (clause, pushed, paramCount') \<Rightarrow>
          find_where_loop rest (whereConditions @ [clause]) (vals @ pushed) paramCount')"

text \<open>
  The same pass in \<^verbatim>\<open>updateInDB\<close> (lines 204 to 215) and \<^verbatim>\<open>deleteFromDB\<close> (lines 263
  to 274), whose loops are identical: null, array and plain value, with no branch for
  an operator object.
\<close>

definition where_condition :: "string \<Rightarrow> jsval \<Rightarrow> nat \<Rightarrow> piece list \<times> jsval list \<times> nat" where
  "where_condition key v paramCount =
     (case v of
        JNull \<Rightarrow> ([Txt key, Txt '' IS NULL''], [], paramCount)
      | JArr xs \<Rightarrow>
          ([Txt key, Txt '' IN (''] @ in_placeholders paramCount xs @ [Txt '')''],
           xs, paramCount + length xs)
      | _ \<Rightarrow> ([Txt key, Txt '' = '', Ph paramCount], [v], paramCount + 1))"

fun where_loop ::
  "js_object \<Rightarrow> piece list list \<Rightarrow> jsval list \<Rightarrow> nat \<Rightarrow> piece list list \<times> jsval list \<times> nat" where
  "where_loop [] whereConditions vals paramCount = (whereConditions, vals, paramCount)"
| "where_loop ((key, v) # rest) whereConditions vals paramCount =
     (case where_condition key v paramCount of
        (clause, pushed, paramCount') \<Rightarrow>
          where_loop rest (whereConditions @ [clause]) (vals @ pushed) paramCount')"

subsection \<open>Find\<close>

text \<open>\<^verbatim>\<open>getFromDB\<close>, lines 107 to 159.\<close>

definition find_statement :: "string \<Rightarrow> js_object \<Rightarrow> js_object \<Rightarrow> piece list \<times> jsval list" where
  "find_statement table conditions options =
     (let columns = with_default (js_get options ''columns'') (JStr ''*'');
          orderBy = with_default (js_get options ''orderBy'') JNull;
          limit = with_default (js_get options ''limit'') JNull;
          offset = with_default (js_get options ''offset'') JNull;
          operator = with_default (js_get options ''operator'') (JStr ''AND'');
          query0 = [Txt ''SELECT '', Txt (js_to_string columns), Txt '' FROM '', Txt table];
          (query1, vals1, paramCount1) =
            (if length (map fst conditions) > 0
             then (case find_where_loop conditions [] [] 1 of
                     (whereConditions, vals, paramCount) \<Rightarrow>
                       (query0 @ [Txt '' WHERE '']
                          @ join [Txt '' '', Txt (js_to_string operator), Txt '' ''] whereConditions,
                        vals, paramCount))
             else (query0, [], 1));
          query2 = (if truthy orderBy
                    then query1 @ [Txt '' ORDER BY '', Txt (js_to_string orderBy)]
                    else query1);
          (query3, vals3, paramCount3) =
            (if truthy limit
             then (query2 @ [Txt '' LIMIT '', Ph paramCount1], vals1 @ [limit], paramCount1 + 1)
             else (query2, vals1, paramCount1));
          (query4, vals4, paramCount4) =
            (if truthy offset
             then (query3 @ [Txt '' OFFSET '', Ph paramCount3], vals3 @ [offset], paramCount3 + 1)
             else (query3, vals3, paramCount3))
      in (query4, vals4))"

subsection \<open>Update\<close>

text \<open>The SET loop of \<^verbatim>\<open>updateInDB\<close>, lines 196 to 200.\<close>

fun set_loop ::
  "js_object \<Rightarrow> piece list list \<Rightarrow> jsval list \<Rightarrow> nat \<Rightarrow> piece list list \<times> jsval list \<times> nat" where
  "set_loop [] setClause vals paramCount = (setClause, vals, paramCount)"
| "set_loop ((key, v) # rest) setClause vals paramCount =
     set_loop rest (setClause @ [[Txt key, Txt '' = '', Ph paramCount]]) (vals @ [v])
       (paramCount + 1)"

text \<open>\<^verbatim>\<open>updateInDB\<close>, lines 192 to 222.\<close>

definition update_statement ::
  "string \<Rightarrow> js_object \<Rightarrow> js_object \<Rightarrow> string \<Rightarrow> piece list \<times> jsval list" where
  "update_statement table data conditions returnFields =
     (case set_loop data [] [] 1 of
        (setClause, vals1, paramCount1) \<Rightarrow>
          (case where_loop conditions [] vals1 paramCount1 of
             (whereConditions, vals2, paramCount2) \<Rightarrow>
               ([Txt (nl @ ''      UPDATE ''), Txt table, Txt (nl @ ''      SET '')]
                  @ join [Txt '', ''] setClause
                  @ [Txt (nl @ ''      WHERE '')]
                  @ join [Txt '' AND ''] whereConditions
                  @ [Txt (nl @ ''      RETURNING ''), Txt returnFields, Txt ('';'' @ nl @ ''    '')],
                vals2)))"

subsection \<open>Delete\<close>

text \<open>\<^verbatim>\<open>deleteFromDB\<close>, lines 259 to 280.\<close>

definition delete_statement :: "string \<Rightarrow> js_object \<Rightarrow> string \<Rightarrow> piece list \<times> jsval list" where
  "delete_statement table conditions returnFields =
     (case where_loop conditions [] [] 1 of
        (whereConditions, vals, paramCount) \<Rightarrow>
          ([Txt (nl @ ''      DELETE FROM ''), Txt table, Txt (nl @ ''      WHERE '')]
             @ join [Txt '' AND ''] whereConditions
             @ [Txt (nl @ ''      RETURNING ''), Txt returnFields, Txt ('';'' @ nl @ ''    '')],
           vals))"

section \<open>The operations\<close>

text \<open>
  Each operation acquires a client before its \<^verbatim>\<open>try\<close>, so a rejected
  \<^verbatim>\<open>pool.connect()\<close> reaches the caller as it is. Inside the \<^verbatim>\<open>try\<close>, whatever is
  thrown (by the store or by the operation itself) goes to \<^verbatim>\<open>handleError\<close>; the
  \<^verbatim>\<open>finally\<close> releases the client.
\<close>

definition addToDB :: "world \<Rightarrow> string \<Rightarrow> js_object \<Rightarrow> string \<Rightarrow> (js_error + row) \<times> world" where
  "addToDB w table data returnFields =
     (case pool_connect w of
        Inl e \<Rightarrow> (Inl e, w)
      | Inr w1 \<Rightarrow>
          (case insert_statement table data returnFields of
             (query, vals) \<Rightarrow>
               (case client_query w1 (render query) vals of
                  (result, w2) \<Rightarrow>
                    (try_catch ''addToDB''
                       (case result of
                          Inl e \<Rightarrow> Inl e
                        | Inr rows \<Rightarrow>
                            (case rows of
                               [] \<Rightarrow> Inl (Error ''Insert operation failed - no record returned'')
                             | r # _ \<Rightarrow> Inr r)),
                     client_release w2))))"

definition getFromDB ::
  "world \<Rightarrow> string \<Rightarrow> js_object \<Rightarrow> js_object \<Rightarrow> (js_error + row list) \<times> world" where
  "getFromDB w table conditions options =
     (case pool_connect w of
        Inl e \<Rightarrow> (Inl e, w)
      | Inr w1 \<Rightarrow>
          (case find_statement table conditions options of
             (query, vals) \<Rightarrow>
               (case client_query w1 (render query) vals of
                  (result, w2) \<Rightarrow> (try_catch ''getFromDB'' result, client_release w2))))"

definition updateInDB ::
  "world \<Rightarrow> string \<Rightarrow> js_object \<Rightarrow> js_object \<Rightarrow> string \<Rightarrow> (js_error + row list) \<times> world" where
  "updateInDB w table data conditions returnFields =
     (case pool_connect w of
        Inl e \<Rightarrow> (Inl e, w)
      | Inr w1 \<Rightarrow>
          (if length (map fst conditions) = 0
           then (try_catch ''updateInDB''
                   (Inl (Error ''Update conditions are required to prevent updating all records'')),
                 client_release w1)
           else if length (map fst data) = 0
           then (try_catch ''updateInDB'' (Inl (Error ''No data provided for update'')),
                 client_release w1)
           else
             (case update_statement table data conditions returnFields of
                (query, vals) \<Rightarrow>
                  (case client_query w1 (render query) vals of
                     (result, w2) \<Rightarrow>
                       (try_catch ''updateInDB''
                          (case result of
                             Inl e \<Rightarrow> Inl e
                           | Inr rows \<Rightarrow>
                               (if length rows = 0
                                then Inl (Error ''No records found matching the update conditions'')
                                else Inr rows)),
                        client_release w2)))))"

definition deleteFromDB ::
  "world \<Rightarrow> string \<Rightarrow> js_object \<Rightarrow> string \<Rightarrow> (js_error + row list) \<times> world" where
  "deleteFromDB w table conditions returnFields =
     (case pool_connect w of
        Inl e \<Rightarrow> (Inl e, w)
      | Inr w1 \<Rightarrow>
          (if length (map fst conditions) = 0
           then (try_catch ''deleteFromDB''
                   (Inl (Error ''Delete conditions are required to prevent deleting all records'')),
                 client_release w1)
           else
             (case delete_statement table conditions returnFields of
                (query, vals) \<Rightarrow>
                  (case client_query w1 (render query) vals of
                     (result, w2) \<Rightarrow> (try_catch ''deleteFromDB'' result, client_release w2)))))"




section \<open>Names for what the builders and the operations produce\<close>

subsection \<open>The errors the module creates\<close>

text \<open>
  The module throws plain \<^verbatim>\<open>Error\<close> objects that differ in their message only. The
  constants below name the objects created at each \<^verbatim>\<open>throw\<close>, after the failure kinds
  of the specification.
\<close>

definition DuplicateRecordError :: js_error where
  "DuplicateRecordError = Error ''Record with this identifier already exists''"

definition DanglingReferenceError :: js_error where
  "DanglingReferenceError = Error ''Referenced record does not exist''"

definition MissingFieldError :: js_error where
  "MissingFieldError = Error ''Required field is missing''"

definition UnknownTableError :: js_error where
  "UnknownTableError = Error ''Table does not exist''"

definition OperationFailedError :: "string \<Rightarrow> js_error" where
  "OperationFailedError msg = Error (''Database operation failed: '' @ msg)"

text \<open>Thrown by \<^verbatim>\<open>updateInDB\<close> (line 183) and \<^verbatim>\<open>deleteFromDB\<close> (line 254).\<close>

definition UnscopedMutationError_update :: js_error where
  "UnscopedMutationError_update =
     Error ''Update conditions are required to prevent updating all records''"

definition UnscopedMutationError_delete :: js_error where
  "UnscopedMutationError_delete =
     Error ''Delete conditions are required to prevent deleting all records''"

text \<open>Thrown by \<^verbatim>\<open>updateInDB\<close> (lines 189 and 227) and \<^verbatim>\<open>addToDB\<close> (line 85).\<close>

definition ValidationError_update :: js_error where
  "ValidationError_update = Error ''No data provided for update''"

definition NoMatchError :: js_error where
  "NoMatchError = Error ''No records found matching the update conditions''"

definition NoRowsReturnedError :: js_error where
  "NoRowsReturnedError = Error ''Insert operation failed - no record returned''"

subsection \<open>The results of the loops\<close>

text \<open>
  The clauses and the values that the condition loop of \<^verbatim>\<open>getFromDB\<close> pushes when it
  starts with empty lists: the condition parameters of a find.
\<close>

definition find_clauses :: "js_object \<Rightarrow> nat \<Rightarrow> piece list list" where
  "find_clauses conditions paramCount = fst (find_where_loop conditions [] [] paramCount)"

definition find_values :: "js_object \<Rightarrow> jsval list" where
  "find_values conditions = fst (snd (find_where_loop conditions [] [] 1))"

text \<open>The same for the condition loop of \<^verbatim>\<open>updateInDB\<close> and \<^verbatim>\<open>deleteFromDB\<close>.\<close>

definition where_clauses :: "js_object \<Rightarrow> nat \<Rightarrow> piece list list" where
  "where_clauses conditions paramCount = fst (where_loop conditions [] [] paramCount)"

definition where_values :: "js_object \<Rightarrow> jsval list" where
  "where_values conditions = fst (snd (where_loop conditions [] [] 1))"

text \<open>The clauses of the SET loop.\<close>

definition set_clauses :: "js_object \<Rightarrow> nat \<Rightarrow> piece list list" where
  "set_clauses data paramCount = fst (set_loop data [] [] paramCount)"

text \<open>The \<^verbatim>\<open>limit\<close> and \<^verbatim>\<open>offset\<close> that \<^verbatim>\<open>getFromDB\<close> destructures from its options.\<close>

definition limit_of :: "js_object \<Rightarrow> jsval" where
  "limit_of options = with_default (js_get options ''limit'') JNull"

definition offset_of :: "js_object \<Rightarrow> jsval" where
  "offset_of options = with_default (js_get options ''offset'') JNull"

subsection \<open>Reading the placeholders back from the text\<close>

text \<open>
  The store finds a parameter reference in the text where a dollar sign is followed by
  decimal digits. \<open>text_placeholders\<close> scans the characters of a statement for these, left
  to right.
\<close>

definition is_digit :: "char \<Rightarrow> bool" where
  "is_digit c = (c \<in> set ''0123456789'')"

definition digit_val :: "char \<Rightarrow> nat" where
  "digit_val c = of_char c - 48"

fun read_nat :: "string \<Rightarrow> nat \<Rightarrow> nat" where
  "read_nat [] acc = acc"
| "read_nat (c # cs) acc = read_nat cs (10 * acc + digit_val c)"

fun text_placeholders :: "string \<Rightarrow> nat list" where
  "text_placeholders [] = []"
| "text_placeholders (c # cs) =
     (if c = CHR ''$'' \<and> takeWhile is_digit cs \<noteq> []
      then read_nat (takeWhile is_digit cs) 0 # text_placeholders cs
      else text_placeholders cs)"

text \<open>
  Table names, column names, operators and ordering expressions go into the text as
  they are. The scan finds the builder's placeholders, and nothing else, when none of
  them contains a dollar sign.
\<close>

definition no_dollar :: "string \<Rightarrow> bool" where
  "no_dollar s = (CHR ''$'' \<notin> set s)"

fun plain_find_condition :: "string \<times> jsval \<Rightarrow> bool" where
  "plain_find_condition (key, JObj ps) =
     (no_dollar key \<and> no_dollar (js_to_string (js_get ps ''operator'')))"
| "plain_find_condition (key, v) = no_dollar key"

definition plain_options :: "js_object \<Rightarrow> bool" where
  "plain_options options =
     (no_dollar (js_to_string (with_default (js_get options ''columns'') (JStr ''*'')))
      \<and> no_dollar (js_to_string (with_default (js_get options ''orderBy'') JNull))
      \<and> no_dollar (js_to_string (with_default (js_get options ''operator'') (JStr ''AND''))))"

text \<open>
  A text stops a numeral when it is empty or starts with a character that is no digit.
  A piece list is safe for the scan when no verbatim piece has a dollar sign and the
  text after every placeholder stops its numeral.
\<close>

definition stops :: "string \<Rightarrow> bool" where
  "stops r = (case r of [] \<Rightarrow> True | c # _ \<Rightarrow> \<not> is_digit c)"

fun text_safe :: "piece list \<Rightarrow> bool" where
  "text_safe [] = True"
| "text_safe (Txt s # ps) = (no_dollar s \<and> text_safe ps)"
| "text_safe (Ph n # ps) = (stops (render ps) \<and> text_safe ps)"

subsection \<open>Stores used as examples\<close>

text \<open>A store in which no row matches any statement.\<close>

definition empty_store :: world where
  "empty_store =
     \<lparr>connect_error = None, respond = (\<lambda>text vals. Inr []), executed = [], held = 0,
      totalCount = 1, idleCount = 1, waitingCount = 0\<rparr>"

text \<open>A store that rejects every statement as PostgreSQL rejects an empty column list.\<close>

definition rejecting_store :: world where
  "rejecting_store =
     \<lparr>connect_error = None,
      respond = (\<lambda>text vals. Inl \<lparr>code = Some ''42601'', message = ''syntax error at or near '' @ [CHR 0x22, CHR '')'', CHR 0x22]\<rparr>),
      executed = [], held = 0, totalCount = 1, idleCount = 1, waitingCount = 0\<rparr>"

text \<open>A store that answers every statement with one row.\<close>

definition one_row_store :: world where
  "one_row_store =
     \<lparr>connect_error = None,
      respond = (\<lambda>text vals. Inr [[(''current_time'', JStr ''2024-01-01''), (''version'', JStr ''PostgreSQL'')]]),
      executed = [], held = 0, totalCount = 1, idleCount = 1, waitingCount = 0\<rparr>"


text \<open>A pool whose connection to the server is refused.\<close>

definition refusing_pool :: world where
  "refusing_pool =
     \<lparr>connect_error =
        Some \<lparr>code = Some ''ECONNREFUSED'', message = ''connect ECONNREFUSED 127.0.0.1:5432''\<rparr>,
      respond = (\<lambda>text vals. Inr []), executed = [], held = 0,
      totalCount = 0, idleCount = 0, waitingCount = 1\<rparr>"

section \<open>Properties of the loops and the builders\<close>

lemma placeholders_append [simp]: "placeholders (xs @ ys) = placeholders xs @ placeholders ys"
  by (induction xs rule: placeholders.induct) auto

lemma placeholders_join:
  "placeholders sep = [] \<Longrightarrow> placeholders (join sep xss) = concat (map placeholders xss)"
  by (induction sep xss rule: join.induct) auto

lemma placeholders_in_placeholders [simp]:
  "placeholders (in_placeholders paramCount xs) = [paramCount..<paramCount + length xs]"
  by (simp add: in_placeholders_def placeholders_join o_def)

lemma upt_split: "[a..<a + (m + n)] = [a..<a + m] @ [a + m..<a + (m + n)]"
  using upt_add_eq_append[of a "a + m" n] by (simp add: add.assoc)

lemma find_condition_values:
  "fst (snd (find_condition key v pc)) = fst (snd (find_condition key v pc'))"
  by (simp add: find_condition_def split: jsval.splits)

lemma find_condition_count:
  "snd (snd (find_condition key v pc)) = pc + length (fst (snd (find_condition key v pc)))"
  by (simp add: find_condition_def split: jsval.splits)

lemma find_condition_placeholders:
  "placeholders (fst (find_condition key v pc)) = [pc..<pc + length (fst (snd (find_condition key v pc)))]"
  by (simp add: find_condition_def split: jsval.splits)

lemma find_where_loop_acc:
  "find_where_loop cs wc vs pc =
     (wc @ fst (find_where_loop cs [] [] pc),
      vs @ fst (snd (find_where_loop cs [] [] pc)),
      snd (snd (find_where_loop cs [] [] pc)))"
proof (induction cs arbitrary: wc vs pc)
  case Nil
  then show ?case by simp
next
  case (Cons c cs)
  obtain key v where c: "c = (key, v)" by (cases c)
  obtain cl pu pc1 where fc: "find_condition key v pc = (cl, pu, pc1)"
    by (cases "find_condition key v pc") auto
  have a: "find_where_loop cs (wc @ [cl]) (vs @ pu) pc1 =
     ((wc @ [cl]) @ fst (find_where_loop cs [] [] pc1),
      (vs @ pu) @ fst (snd (find_where_loop cs [] [] pc1)),
      snd (snd (find_where_loop cs [] [] pc1)))"
    by (rule Cons.IH)
  have b: "find_where_loop cs [cl] pu pc1 =
     ([cl] @ fst (find_where_loop cs [] [] pc1),
      pu @ fst (snd (find_where_loop cs [] [] pc1)),
      snd (snd (find_where_loop cs [] [] pc1)))"
    by (rule Cons.IH)
  show ?case
    unfolding c by (simp add: fc a b)
qed

lemma find_where_loop_Cons:
  "find_where_loop ((key, v) # cs) [] [] pc =
     (fst (find_condition key v pc) # fst (find_where_loop cs [] [] (snd (snd (find_condition key v pc)))),
      fst (snd (find_condition key v pc)) @ fst (snd (find_where_loop cs [] [] (snd (snd (find_condition key v pc))))),
      snd (snd (find_where_loop cs [] [] (snd (snd (find_condition key v pc))))))"
proof -
  obtain cl pu pc1 where fc: "find_condition key v pc = (cl, pu, pc1)"
    by (cases "find_condition key v pc") auto
  have "find_where_loop cs ([] @ [cl]) ([] @ pu) pc1 =
     (([] @ [cl]) @ fst (find_where_loop cs [] [] pc1),
      ([] @ pu) @ fst (snd (find_where_loop cs [] [] pc1)),
      snd (snd (find_where_loop cs [] [] pc1)))"
    by (rule find_where_loop_acc)
  then show ?thesis by (simp add: fc)
qed

lemma find_where_loop_values:
  "fst (snd (find_where_loop cs [] [] pc)) = fst (snd (find_where_loop cs [] [] pc'))"
proof (induction cs arbitrary: pc pc')
  case Nil
  then show ?case by simp
next
  case (Cons c cs)
  obtain key v where c: "c = (key, v)" by (cases c)
  show ?case
    unfolding c find_where_loop_Cons
    using find_condition_values[of key v pc pc']
      Cons.IH[of "snd (snd (find_condition key v pc))" "snd (snd (find_condition key v pc'))"]
    by simp
qed

lemma find_where_loop_count:
  "snd (snd (find_where_loop cs [] [] pc)) = pc + length (fst (snd (find_where_loop cs [] [] pc)))"
proof (induction cs arbitrary: pc)
  case Nil
  then show ?case by simp
next
  case (Cons c cs)
  obtain key v where c: "c = (key, v)" by (cases c)
  show ?case
    unfolding c find_where_loop_Cons
    using find_condition_count[of key v pc]
      Cons.IH[of "snd (snd (find_condition key v pc))"]
    by simp
qed

lemma find_where_loop_eq:
  "find_where_loop cs wc vs pc =
     (wc @ find_clauses cs pc, vs @ find_values cs, pc + length (find_values cs))"
  unfolding find_clauses_def find_values_def
  apply (subst find_where_loop_acc)
  apply (subst find_where_loop_count)
  apply (subst (1 2) find_where_loop_values[of cs pc 1])
  apply (rule refl)
  done

lemma find_clauses_Nil [simp]: "find_clauses [] pc = []"
  by (simp add: find_clauses_def)

lemma find_values_Nil [simp]: "find_values [] = []"
  by (simp add: find_values_def)

lemma find_values_Cons:
  "find_values ((key, v) # cs) = fst (snd (find_condition key v pc)) @ find_values cs"
  unfolding find_values_def find_where_loop_Cons
  using find_condition_values[of key v 1 pc] 
    find_where_loop_values[of cs "snd (snd (find_condition key v 1))" 1]
  by simp

lemma find_clauses_Cons:
  "find_clauses ((key, v) # cs) pc =
     fst (find_condition key v pc)
       # find_clauses cs (pc + length (fst (snd (find_condition key v pc))))"
  unfolding find_clauses_def find_where_loop_Cons
  using find_condition_count[of key v pc] by simp

lemma find_values_append: "find_values (xs @ ys) = find_values xs @ find_values ys"
proof (induction xs)
  case Nil
  then show ?case by simp
next
  case (Cons c xs)
  obtain key v where c: "c = (key, v)" by (cases c)
  show ?case unfolding c using Cons.IH by (simp add: find_values_Cons[where pc=1])
qed

lemma find_clauses_append:
  "find_clauses (xs @ ys) pc = find_clauses xs pc @ find_clauses ys (pc + length (find_values xs))"
proof (induction xs arbitrary: pc)
  case Nil
  then show ?case by simp
next
  case (Cons c xs)
  obtain key v where c: "c = (key, v)" by (cases c)
  show ?case unfolding c
    by (simp add: find_clauses_Cons Cons.IH find_values_Cons[where pc=pc] add.assoc)
qed

lemma find_clauses_placeholders:
  "concat (map placeholders (find_clauses cs pc)) = [pc..<pc + length (find_values cs)]"
proof (induction cs arbitrary: pc)
  case Nil
  then show ?case by simp
next
  case (Cons c cs)
  obtain key v where c: "c = (key, v)" by (cases c)
  show ?case unfolding c
    by (simp add: find_clauses_Cons Cons.IH find_values_Cons[where pc=pc]
        find_condition_placeholders upt_split add.assoc)
qed

lemma length_find_clauses [simp]: "length (find_clauses cs pc) = length cs"
proof (induction cs arbitrary: pc)
  case Nil
  then show ?case by simp
next
  case (Cons c cs)
  obtain key v where c: "c = (key, v)" by (cases c)
  show ?case unfolding c by (simp add: find_clauses_Cons Cons.IH)
qed

lemma where_condition_values:
  "fst (snd (where_condition key v pc)) = fst (snd (where_condition key v pc'))"
  by (simp add: where_condition_def split: jsval.splits)

lemma where_condition_count:
  "snd (snd (where_condition key v pc)) = pc + length (fst (snd (where_condition key v pc)))"
  by (simp add: where_condition_def split: jsval.splits)

lemma where_condition_placeholders:
  "placeholders (fst (where_condition key v pc)) = [pc..<pc + length (fst (snd (where_condition key v pc)))]"
  by (simp add: where_condition_def split: jsval.splits)

lemma where_loop_acc:
  "where_loop cs wc vs pc =
     (wc @ fst (where_loop cs [] [] pc),
      vs @ fst (snd (where_loop cs [] [] pc)),
      snd (snd (where_loop cs [] [] pc)))"
proof (induction cs arbitrary: wc vs pc)
  case Nil
  then show ?case by simp
next
  case (Cons c cs)
  obtain key v where c: "c = (key, v)" by (cases c)
  obtain cl pu pc1 where fc: "where_condition key v pc = (cl, pu, pc1)"
    by (cases "where_condition key v pc") auto
  have a: "where_loop cs (wc @ [cl]) (vs @ pu) pc1 =
     ((wc @ [cl]) @ fst (where_loop cs [] [] pc1),
      (vs @ pu) @ fst (snd (where_loop cs [] [] pc1)),
      snd (snd (where_loop cs [] [] pc1)))"
    by (rule Cons.IH)
  have b: "where_loop cs [cl] pu pc1 =
     ([cl] @ fst (where_loop cs [] [] pc1),
      pu @ fst (snd (where_loop cs [] [] pc1)),
      snd (snd (where_loop cs [] [] pc1)))"
    by (rule Cons.IH)
  show ?case
    unfolding c by (simp add: fc a b)
qed

lemma where_loop_Cons:
  "where_loop ((key, v) # cs) [] [] pc =
     (fst (where_condition key v pc) # fst (where_loop cs [] [] (snd (snd (where_condition key v pc)))),
      fst (snd (where_condition key v pc)) @ fst (snd (where_loop cs [] [] (snd (snd (where_condition key v pc))))),
      snd (snd (where_loop cs [] [] (snd (snd (where_condition key v pc))))))"
proof -
  obtain cl pu pc1 where fc: "where_condition key v pc = (cl, pu, pc1)"
    by (cases "where_condition key v pc") auto
  have "where_loop cs ([] @ [cl]) ([] @ pu) pc1 =
     (([] @ [cl]) @ fst (where_loop cs [] [] pc1),
      ([] @ pu) @ fst (snd (where_loop cs [] [] pc1)),
      snd (snd (where_loop cs [] [] pc1)))"
    by (rule where_loop_acc)
  then show ?thesis by (simp add: fc)
qed

lemma where_loop_values:
  "fst (snd (where_loop cs [] [] pc)) = fst (snd (where_loop cs [] [] pc'))"
proof (induction cs arbitrary: pc pc')
  case Nil
  then show ?case by simp
next
  case (Cons c cs)
  obtain key v where c: "c = (key, v)" by (cases c)
  show ?case
    unfolding c where_loop_Cons
    using where_condition_values[of key v pc pc']
      Cons.IH[of "snd (snd (where_condition key v pc))" "snd (snd (where_condition key v pc'))"]
    by simp
qed

lemma where_loop_count:
  "snd (snd (where_loop cs [] [] pc)) = pc + length (fst (snd (where_loop cs [] [] pc)))"
proof (induction cs arbitrary: pc)
  case Nil
  then show ?case by simp
next
  case (Cons c cs)
  obtain key v where c: "c = (key, v)" by (cases c)
  show ?case
    unfolding c where_loop_Cons
    using where_condition_count[of key v pc]
      Cons.IH[of "snd (snd (where_condition key v pc))"]
    by simp
qed

lemma where_loop_eq:
  "where_loop cs wc vs pc =
     (wc @ where_clauses cs pc, vs @ where_values cs, pc + length (where_values cs))"
  unfolding where_clauses_def where_values_def
  apply (subst where_loop_acc)
  apply (subst where_loop_count)
  apply (subst (1 2) where_loop_values[of cs pc 1])
  apply (rule refl)
  done

lemma where_clauses_Nil [simp]: "where_clauses [] pc = []"
  by (simp add: where_clauses_def)

lemma where_values_Nil [simp]: "where_values [] = []"
  by (simp add: where_values_def)

lemma where_values_Cons:
  "where_values ((key, v) # cs) = fst (snd (where_condition key v pc)) @ where_values cs"
  unfolding where_values_def where_loop_Cons
  using where_condition_values[of key v 1 pc] 
    where_loop_values[of cs "snd (snd (where_condition key v 1))" 1]
  by simp

lemma where_clauses_Cons:
  "where_clauses ((key, v) # cs) pc =
     fst (where_condition key v pc)
       # where_clauses cs (pc + length (fst (snd (where_condition key v pc))))"
  unfolding where_clauses_def where_loop_Cons
  using where_condition_count[of key v pc] by simp

lemma where_values_append: "where_values (xs @ ys) = where_values xs @ where_values ys"
proof (induction xs)
  case Nil
  then show ?case by simp
next
  case (Cons c xs)
  obtain key v where c: "c = (key, v)" by (cases c)
  show ?case unfolding c using Cons.IH by (simp add: where_values_Cons[where pc=1])
qed

lemma where_clauses_append:
  "where_clauses (xs @ ys) pc = where_clauses xs pc @ where_clauses ys (pc + length (where_values xs))"
proof (induction xs arbitrary: pc)
  case Nil
  then show ?case by simp
next
  case (Cons c xs)
  obtain key v where c: "c = (key, v)" by (cases c)
  show ?case unfolding c
    by (simp add: where_clauses_Cons Cons.IH where_values_Cons[where pc=pc] add.assoc)
qed

lemma where_clauses_placeholders:
  "concat (map placeholders (where_clauses cs pc)) = [pc..<pc + length (where_values cs)]"
proof (induction cs arbitrary: pc)
  case Nil
  then show ?case by simp
next
  case (Cons c cs)
  obtain key v where c: "c = (key, v)" by (cases c)
  show ?case unfolding c
    by (simp add: where_clauses_Cons Cons.IH where_values_Cons[where pc=pc]
        where_condition_placeholders upt_split add.assoc)
qed

lemma length_where_clauses [simp]: "length (where_clauses cs pc) = length cs"
proof (induction cs arbitrary: pc)
  case Nil
  then show ?case by simp
next
  case (Cons c cs)
  obtain key v where c: "c = (key, v)" by (cases c)
  show ?case unfolding c by (simp add: where_clauses_Cons Cons.IH)
qed

lemma set_loop_acc:
  "set_loop data setClause vs pc =
     (setClause @ fst (set_loop data [] [] pc), vs @ map snd data, pc + length data)"
proof (induction data arbitrary: setClause vs pc)
  case Nil
  then show ?case by simp
next
  case (Cons c data)
  obtain key v where c: "c = (key, v)" by (cases c)
  have a: "set_loop data [[Txt key, Txt '' = '', Ph pc]] [v] (Suc pc) =
     ([[Txt key, Txt '' = '', Ph pc]] @ fst (set_loop data [] [] (Suc pc)), [v] @ map snd data,
      Suc pc + length data)"
    by (rule Cons.IH)
  have b: "set_loop data (setClause @ [[Txt key, Txt '' = '', Ph pc]]) (vs @ [v]) (Suc pc) =
     ((setClause @ [[Txt key, Txt '' = '', Ph pc]]) @ fst (set_loop data [] [] (Suc pc)),
      (vs @ [v]) @ map snd data, Suc pc + length data)"
    by (rule Cons.IH)
  show ?case unfolding c by (simp add: a b)
qed

lemma set_loop_eq:
  "set_loop data setClause vs pc =
     (setClause @ set_clauses data pc, vs @ map snd data, pc + length data)"
  unfolding set_clauses_def by (rule set_loop_acc)

lemma set_clauses_Nil [simp]: "set_clauses [] pc = []"
  by (simp add: set_clauses_def)

lemma set_clauses_Cons:
  "set_clauses ((key, v) # data) pc = [Txt key, Txt '' = '', Ph pc] # set_clauses data (Suc pc)"
  unfolding set_clauses_def
  using set_loop_acc[of data "[[Txt key, Txt '' = '', Ph pc]]" "[v]" "Suc pc"] by simp

lemma set_clauses_placeholders:
  "concat (map placeholders (set_clauses data pc)) = [pc..<pc + length data]"
proof (induction data arbitrary: pc)
  case Nil
  then show ?case by simp
next
  case (Cons c data)
  obtain key v where c: "c = (key, v)" by (cases c)
  have "[pc..<Suc (pc + length data)] = pc # [Suc pc..<Suc (pc + length data)]"
    by (rule upt_conv_Cons) simp
  then show ?case unfolding c by (simp add: set_clauses_Cons Cons.IH del: upt_Suc)
qed

lemma insert_statement_values: "snd (insert_statement table data returnFields) = map snd data"
  by (simp add: insert_statement_def)

lemma insert_statement_placeholders:
  "placeholders (fst (insert_statement table data returnFields)) = [1..<Suc (length data)]"
proof -
  have "map (\<lambda>index. index + 1) [0..<length data] = [1..<Suc (length data)]"
    using map_Suc_upt[of 0 "length data"] by simp
  then show ?thesis
    by (simp add: insert_statement_def placeholders_join o_def)
qed

lemma find_statement_values:
  "snd (find_statement table conditions options) =
     find_values conditions
       @ (if truthy (limit_of options) then [limit_of options] else [])
       @ (if truthy (offset_of options) then [offset_of options] else [])"
  by (simp add: find_statement_def Let_def find_where_loop_eq limit_of_def offset_of_def)

lemma find_statement_placeholders:
  "placeholders (fst (find_statement table conditions options)) =
     [1..<Suc (length (snd (find_statement table conditions options)))]"
  unfolding find_statement_values
  by (simp add: find_statement_def Let_def find_where_loop_eq limit_of_def offset_of_def
      placeholders_join find_clauses_placeholders)

lemma update_statement_values:
  "snd (update_statement table data conditions returnFields) = map snd data @ where_values conditions"
  by (simp add: update_statement_def set_loop_eq where_loop_eq)

lemma update_statement_placeholders:
  "placeholders (fst (update_statement table data conditions returnFields)) =
     [1..<Suc (length (snd (update_statement table data conditions returnFields)))]"
proof -
  have "[Suc 0..<Suc (length data + length (where_values conditions))]
      = [Suc 0..<Suc 0 + length data] @ [Suc (length data)..<Suc (length data) + length (where_values conditions)]"
    using upt_add_eq_append[of "Suc 0" "Suc (length data)" "length (where_values conditions)"] by simp
  then show ?thesis
    unfolding update_statement_values
    by (simp add: update_statement_def set_loop_eq where_loop_eq placeholders_join
      set_clauses_placeholders where_clauses_placeholders del: upt_Suc)
qed

lemma delete_statement_values:
  "snd (delete_statement table conditions returnFields) = where_values conditions"
  by (simp add: delete_statement_def where_loop_eq)

lemma delete_statement_placeholders:
  "placeholders (fst (delete_statement table conditions returnFields)) =
     [1..<Suc (length (snd (delete_statement table conditions returnFields)))]"
  unfolding delete_statement_values
  by (simp add: delete_statement_def where_loop_eq placeholders_join where_clauses_placeholders
      del: upt_Suc)

lemma lt10: "d < 10 \<Longrightarrow> d = 0 \<or> d = 1 \<or> d = 2 \<or> d = 3 \<or> d = 4 \<or> d = 5 \<or> d = 6 \<or> d = 7 \<or> d = 8 \<or> d = (9::nat)"
  by arith

lemma digit_char_props:
  "d < 10 \<Longrightarrow> is_digit (digit_char d) \<and> digit_val (digit_char d) = d \<and> digit_char d \<noteq> CHR ''$''"
  using lt10[of d] by (auto simp: is_digit_def digit_val_def digit_char_def)

lemma show_nat_digits: "\<forall>c \<in> set (show_nat n). is_digit c"
proof (induction n rule: show_nat.induct)
  case (1 n)
  show ?case
  proof (cases "n < 10")
    case True
    then show ?thesis by (subst show_nat.simps) (simp add: digit_char_props)
  next
    case False
    then show ?thesis using 1 by (subst show_nat.simps) (simp add: digit_char_props)
  qed
qed

lemma show_nat_nonempty: "show_nat n \<noteq> []"
  by (subst show_nat.simps) simp

lemma read_nat_snoc: "read_nat (cs @ [c]) acc = 10 * read_nat cs acc + digit_val c"
  by (induction cs arbitrary: acc) auto

lemma read_show_nat: "read_nat (show_nat n) 0 = n"
proof (induction n rule: show_nat.induct)
  case (1 n)
  show ?case
  proof (cases "n < 10")
    case True
    then show ?thesis by (subst show_nat.simps) (simp add: digit_char_props)
  next
    case False
    then show ?thesis using 1
      by (subst show_nat.simps) (simp add: digit_char_props read_nat_snoc)
  qed
qed

lemma is_digit_not_dollar: "is_digit c \<Longrightarrow> c \<noteq> CHR ''$''"
  by (auto simp: is_digit_def)

lemma no_dollar_show_nat: "no_dollar (show_nat n)"
  using show_nat_digits[of n] is_digit_not_dollar by (auto simp: no_dollar_def)

lemma text_placeholders_skip: "no_dollar s \<Longrightarrow> text_placeholders (s @ r) = text_placeholders r"
  by (induction s) (auto simp: no_dollar_def)

lemma takeWhile_show_nat: "stops r \<Longrightarrow> takeWhile is_digit (show_nat n @ r) = show_nat n"
  using show_nat_digits[of n]
  by (cases r) (auto simp: stops_def takeWhile_append2 takeWhile_eq_all_conv)

lemma text_placeholders_Ph:
  "stops r \<Longrightarrow> text_placeholders (CHR ''$'' # show_nat n @ r) = n # text_placeholders r"
  by (simp add: takeWhile_show_nat show_nat_nonempty read_show_nat
      text_placeholders_skip no_dollar_show_nat)

lemma render_simps [simp]:
  "render [] = []"
  "render (Txt s # ps) = s @ render ps"
  "render (Ph n # ps) = CHR ''$'' # show_nat n @ render ps"
  "render (xs @ ys) = render xs @ render ys"
  by (simp_all add: render_def)

lemma text_safe_scan: "text_safe ps \<Longrightarrow> text_placeholders (render ps) = placeholders ps"
proof (induction ps rule: text_safe.induct)
  case 1
  then show ?case by simp
next
  case (2 s ps)
  then show ?case by (simp add: text_placeholders_skip)
next
  case (3 n ps)
  then show ?case by (simp add: text_placeholders_Ph del: text_placeholders.simps)
qed

lemma stops_append: "stops a \<Longrightarrow> stops b \<Longrightarrow> stops (a @ b)"
  by (cases a) (auto simp: stops_def)

lemma text_safe_append:
  "text_safe xs \<Longrightarrow> text_safe ys \<Longrightarrow> stops (render ys) \<Longrightarrow> text_safe (xs @ ys)"
  by (induction xs rule: text_safe.induct) (auto simp: stops_append)

lemma text_safe_append_text:
  "placeholders xs = [] \<Longrightarrow> text_safe xs \<Longrightarrow> text_safe ys \<Longrightarrow> text_safe (xs @ ys)"
  by (induction xs rule: text_safe.induct) auto

lemma text_safe_join:
  "\<forall>x \<in> set xss. text_safe x \<Longrightarrow> text_safe sep \<Longrightarrow> placeholders sep = []
     \<Longrightarrow> stops (render sep) \<Longrightarrow> render sep \<noteq> []
     \<Longrightarrow> text_safe (join sep xss)"
proof (induction sep xss rule: join.induct)
  case (1 sep)
  then show ?case by simp
next
  case (2 sep x)
  then show ?case by simp
next
  case (3 sep x y ys)
  have s: "stops (render (sep @ join sep (y # ys)))"
    using 3(5,6) by (cases "render sep") (auto simp: stops_def)
  have "text_safe (join sep (y # ys))" using 3 by simp
  then have "text_safe (sep @ join sep (y # ys))"
    using 3(3,4) by (rule_tac text_safe_append_text)
  then show ?case using 3(2) s by (simp add: text_safe_append)
qed

lemma text_safe_in_placeholders: "text_safe (in_placeholders pc xs)"
  unfolding in_placeholders_def
  by (rule text_safe_join) (auto simp: no_dollar_def stops_def is_digit_def)

lemma stops_simps [simp]: "stops []" "stops (c # cs) = (\<not> is_digit c)"
  by (simp_all add: stops_def)

lemma no_dollar_simps [simp]:
  "no_dollar []" "no_dollar (c # cs) = (c \<noteq> CHR ''$'' \<and> no_dollar cs)"
  "no_dollar (xs @ ys) = (no_dollar xs \<and> no_dollar ys)"
  by (auto simp: no_dollar_def)

lemma is_digit_simps [simp]:
  "\<not> is_digit CHR '' ''" "\<not> is_digit CHR '',''" "\<not> is_digit CHR '')''" "\<not> is_digit CHR 0x0A"
  by (simp_all add: is_digit_def)

lemma text_safe_find_condition:
  "plain_find_condition (key, v) \<Longrightarrow> text_safe (fst (find_condition key v pc))"
  by (cases v) (auto simp: find_condition_def text_safe_append text_safe_in_placeholders)

lemma text_safe_find_clauses:
  "\<forall>c \<in> set cs. plain_find_condition c \<Longrightarrow> \<forall>cl \<in> set (find_clauses cs pc). text_safe cl"
proof (induction cs arbitrary: pc)
  case Nil
  then show ?case by simp
next
  case (Cons c cs)
  obtain key v where c: "c = (key, v)" by (cases c)
  show ?case using Cons unfolding c
    by (simp add: find_clauses_Cons text_safe_find_condition)
qed

lemma text_safe_where_condition:
  "no_dollar key \<Longrightarrow> text_safe (fst (where_condition key v pc))"
  by (cases v) (auto simp: where_condition_def text_safe_append text_safe_in_placeholders)

lemma text_safe_where_clauses:
  "\<forall>c \<in> set cs. no_dollar (fst c) \<Longrightarrow> \<forall>cl \<in> set (where_clauses cs pc). text_safe cl"
proof (induction cs arbitrary: pc)
  case Nil
  then show ?case by simp
next
  case (Cons c cs)
  obtain key v where c: "c = (key, v)" by (cases c)
  show ?case using Cons unfolding c
    by (simp add: where_clauses_Cons text_safe_where_condition)
qed

lemma text_safe_set_clauses:
  "\<forall>c \<in> set data. no_dollar (fst c) \<Longrightarrow> \<forall>cl \<in> set (set_clauses data pc). text_safe cl"
proof (induction data arbitrary: pc)
  case Nil
  then show ?case by simp
next
  case (Cons c data)
  obtain key v where c: "c = (key, v)" by (cases c)
  show ?case using Cons unfolding c
    by (simp add: set_clauses_Cons)
qed

lemma text_safe_find_join:
  "\<forall>c \<in> set cs. plain_find_condition c \<Longrightarrow> no_dollar op \<Longrightarrow>
     text_safe (join [Txt '' '', Txt op, Txt '' ''] (find_clauses cs pc))"
  by (rule text_safe_join) (auto simp: text_safe_find_clauses)

lemma text_safe_find_statement:
  assumes "no_dollar table" "plain_options options" "\<forall>c \<in> set conditions. plain_find_condition c"
  shows "text_safe (fst (find_statement table conditions options))"
  using assms
  by (simp add: find_statement_def Let_def find_where_loop_eq plain_options_def
      text_safe_append text_safe_find_join)

lemma text_safe_insert_statement:
  assumes "no_dollar table" "no_dollar returnFields" "\<forall>c \<in> set data. no_dollar (fst c)"
  shows "text_safe (fst (insert_statement table data returnFields))"
proof -
  have j: "no_dollar (join '', '' (map fst data))"
    using assms(3) by (induction data rule: induct_list012) (auto simp: nl_def)
  have "text_safe (join [Txt '', ''] (map (\<lambda>index. [Ph (index + 1)]) [0..<length data]))"
    by (rule text_safe_join) auto
  then show ?thesis using assms(1,2) j
    by (simp add: insert_statement_def nl_def text_safe_append)
qed

lemma text_safe_update_statement:
  assumes "no_dollar table" "no_dollar returnFields" "\<forall>c \<in> set data. no_dollar (fst c)"
    "\<forall>c \<in> set conditions. no_dollar (fst c)"
  shows "text_safe (fst (update_statement table data conditions returnFields))"
proof -
  have a: "text_safe (join [Txt '', ''] (set_clauses data 1))"
    by (rule text_safe_join) (use assms(3) text_safe_set_clauses in auto)
  have b: "text_safe (join [Txt '' AND ''] (where_clauses conditions (1 + length data)))"
    by (rule text_safe_join) (use assms(4) text_safe_where_clauses in auto)
  show ?thesis using assms(1,2) a b
    by (simp add: update_statement_def set_loop_eq where_loop_eq nl_def text_safe_append)
qed

lemma text_safe_delete_statement:
  assumes "no_dollar table" "no_dollar returnFields" "\<forall>c \<in> set conditions. no_dollar (fst c)"
  shows "text_safe (fst (delete_statement table conditions returnFields))"
proof -
  have b: "text_safe (join [Txt '' AND ''] (where_clauses conditions 1))"
    by (rule text_safe_join) (use assms(3) text_safe_where_clauses in auto)
  show ?thesis using assms(1,2) b
    by (simp add: delete_statement_def where_loop_eq nl_def text_safe_append)
qed

section \<open>Properties of the operations\<close>

lemma Error_sel [simp]: "message (Error msg) = msg" "code (Error msg) = None"
  by (simp_all add: Error_def)

lemma try_catch_local: "try_catch operation (Inl (Error msg)) = Inl (OperationFailedError msg)"
  by (simp add: try_catch_def handleError_def Error_def OperationFailedError_def)

lemma addToDB_connected:
  "connect_error w = None \<Longrightarrow>
   addToDB w table data returnFields =
     (try_catch ''addToDB''
        (case respond w (render (fst (insert_statement table data returnFields))) (map snd data) of
           Inl e \<Rightarrow> Inl e
         | Inr rows \<Rightarrow> (case rows of [] \<Rightarrow> Inl (Error ''Insert operation failed - no record returned'')
                        | r # _ \<Rightarrow> Inr r)),
      w\<lparr>executed := executed w @
          [(render (fst (insert_statement table data returnFields)), map snd data)]\<rparr>)"
  using insert_statement_values[of table data returnFields]
  by (auto simp: addToDB_def pool_connect_def client_query_def client_release_def
      split: prod.splits)

lemma getFromDB_connected:
  "connect_error w = None \<Longrightarrow>
   getFromDB w table conditions options =
     (try_catch ''getFromDB''
        (respond w (render (fst (find_statement table conditions options)))
           (snd (find_statement table conditions options))),
      w\<lparr>executed := executed w @
          [(render (fst (find_statement table conditions options)),
            snd (find_statement table conditions options))]\<rparr>)"
  by (simp add: getFromDB_def pool_connect_def client_query_def client_release_def
      split: prod.splits)

lemma updateInDB_connected:
  "connect_error w = None \<Longrightarrow> conditions \<noteq> [] \<Longrightarrow> data \<noteq> [] \<Longrightarrow>
   updateInDB w table data conditions returnFields =
     (try_catch ''updateInDB''
        (case respond w (render (fst (update_statement table data conditions returnFields)))
                (snd (update_statement table data conditions returnFields)) of
           Inl e \<Rightarrow> Inl e
         | Inr rows \<Rightarrow> (if length rows = 0
                        then Inl (Error ''No records found matching the update conditions'')
                        else Inr rows)),
      w\<lparr>executed := executed w @
          [(render (fst (update_statement table data conditions returnFields)),
            snd (update_statement table data conditions returnFields))]\<rparr>)"
  by (simp add: updateInDB_def pool_connect_def client_query_def client_release_def
      split: prod.splits)

lemma deleteFromDB_connected:
  "connect_error w = None \<Longrightarrow> conditions \<noteq> [] \<Longrightarrow>
   deleteFromDB w table conditions returnFields =
     (try_catch ''deleteFromDB''
        (respond w (render (fst (delete_statement table conditions returnFields)))
           (snd (delete_statement table conditions returnFields))),
      w\<lparr>executed := executed w @
          [(render (fst (delete_statement table conditions returnFields)),
            snd (delete_statement table conditions returnFields))]\<rparr>)"
  by (simp add: deleteFromDB_def pool_connect_def client_query_def client_release_def
      split: prod.splits)

lemma updateInDB_unscoped:
  "connect_error w = None \<Longrightarrow>
   updateInDB w table data [] returnFields =
     (Inl (OperationFailedError (message UnscopedMutationError_update)), w)"
  by (simp add: updateInDB_def pool_connect_def client_release_def try_catch_def
      handleError_def OperationFailedError_def UnscopedMutationError_update_def Error_def)

lemma deleteFromDB_unscoped:
  "connect_error w = None \<Longrightarrow>
   deleteFromDB w table [] returnFields =
     (Inl (OperationFailedError (message UnscopedMutationError_delete)), w)"
  by (simp add: deleteFromDB_def pool_connect_def client_release_def try_catch_def
      handleError_def OperationFailedError_def UnscopedMutationError_delete_def Error_def)

lemma updateInDB_no_data:
  "connect_error w = None \<Longrightarrow> conditions \<noteq> [] \<Longrightarrow>
   updateInDB w table [] conditions returnFields =
     (Inl (OperationFailedError (message ValidationError_update)), w)"
  by (simp add: updateInDB_def pool_connect_def client_release_def try_catch_def
      handleError_def OperationFailedError_def ValidationError_update_def Error_def)

lemma not_connected:
  "connect_error w = Some e \<Longrightarrow>
     addToDB w table data returnFields = (Inl e, w)
     \<and> getFromDB w table conditions options = (Inl e, w)
     \<and> updateInDB w table data conditions returnFields = (Inl e, w)
     \<and> deleteFromDB w table conditions returnFields = (Inl e, w)"
  by (simp add: addToDB_def getFromDB_def updateInDB_def deleteFromDB_def pool_connect_def)

lemma join_split:
  "join sep (xs @ c # ys) =
     (if xs = [] then [] else join sep xs @ sep) @ c @ (if ys = [] then [] else sep @ join sep ys)"
proof (induction sep xs rule: join.induct)
  case (1 sep)
  then show ?case by (cases ys) simp_all
next
  case (2 sep x)
  then show ?case by (cases ys) simp_all
next
  case (3 sep x y zs)
  then show ?case by simp
qed

lemma find_statement_pieces:
  "fst (find_statement table conditions options) =
     [Txt ''SELECT '', Txt (js_to_string (with_default (js_get options ''columns'') (JStr ''*''))),
      Txt '' FROM '', Txt table]
     @ (if conditions = [] then []
        else Txt '' WHERE ''
          # join [Txt '' '', Txt (js_to_string (with_default (js_get options ''operator'') (JStr ''AND''))),
                  Txt '' '']
              (find_clauses conditions 1))
     @ (if truthy (with_default (js_get options ''orderBy'') JNull)
        then [Txt '' ORDER BY '', Txt (js_to_string (with_default (js_get options ''orderBy'') JNull))]
        else [])
     @ (if truthy (limit_of options)
        then [Txt '' LIMIT '', Ph (1 + length (find_values conditions))] else [])
     @ (if truthy (offset_of options)
        then [Txt '' OFFSET '',
              Ph (1 + length (find_values conditions) + (if truthy (limit_of options) then 1 else 0))]
        else [])"
  by (simp add: find_statement_def Let_def find_where_loop_eq limit_of_def offset_of_def)


lemma find_statement_clause:
  assumes "conditions = pre @ (key, v) # post"
  shows "\<exists>before after.
     fst (find_statement table conditions options)
       = before @ fst (find_condition key v (1 + length (find_values pre))) @ after
     \<and> placeholders before = [1..<Suc (length (find_values pre))]
     \<and> placeholders after
         = [Suc (length (find_values pre)) + length (fst (snd (find_condition key v (1 + length (find_values pre)))))
            ..<Suc (length (snd (find_statement table conditions options)))]"
proof -
  let ?sep = "[Txt '' '', Txt (js_to_string (with_default (js_get options ''operator'') (JStr ''AND''))),
                  Txt '' '']"
  let ?A = "find_clauses pre 1"
  let ?c = "fst (find_condition key v (1 + length (find_values pre)))"
  let ?B = "find_clauses post
      (1 + length (find_values pre) + length (fst (snd (find_condition key v (1 + length (find_values pre))))))"
  let ?q0 = "[Txt ''SELECT '', Txt (js_to_string (with_default (js_get options ''columns'') (JStr ''*''))),
      Txt '' FROM '', Txt table]"
  let ?before = "?q0 @ [Txt '' WHERE ''] @ (if ?A = [] then [] else join ?sep ?A @ ?sep)"
  let ?tail = "(if truthy (with_default (js_get options ''orderBy'') JNull)
        then [Txt '' ORDER BY '', Txt (js_to_string (with_default (js_get options ''orderBy'') JNull))]
        else [])
     @ (if truthy (limit_of options)
        then [Txt '' LIMIT '', Ph (1 + length (find_values conditions))] else [])
     @ (if truthy (offset_of options)
        then [Txt '' OFFSET '',
              Ph (1 + length (find_values conditions) + (if truthy (limit_of options) then 1 else 0))]
        else [])"
  let ?after = "(if ?B = [] then [] else ?sep @ join ?sep ?B) @ ?tail"
  have cl: "find_clauses conditions 1 = ?A @ ?c # ?B"
    unfolding assms by (simp add: find_clauses_append find_clauses_Cons)
  have ne: "conditions \<noteq> []" using assms by simp
  have 1: "fst (find_statement table conditions options) = ?before @ ?c @ ?after"
    unfolding find_statement_pieces cl join_split using ne by simp
  have "placeholders (if ?A = [] then [] else join ?sep ?A @ ?sep) = concat (map placeholders ?A)"
    by (simp add: placeholders_join)
  then have 2: "placeholders ?before = [1..<Suc (length (find_values pre))]"
    using find_clauses_placeholders[of pre 1] by (simp del: upt_Suc)
  let ?n = "length (find_values pre)"
  let ?k = "length (fst (snd (find_condition key v (1 + length (find_values pre)))))"
  let ?L = "length (snd (find_statement table conditions options))"
  have "find_values conditions = find_values pre
      @ fst (snd (find_condition key v (1 + length (find_values pre)))) @ find_values post"
    unfolding assms by (simp add: find_values_append find_values_Cons[where pc="1 + length (find_values pre)"])
  then obtain r where L: "?L = ?n + ?k + r"
    unfolding find_statement_values by simp
  have whole: "placeholders (?before @ ?c @ ?after) = [1..<Suc ?L]"
    using find_statement_placeholders[of table conditions options] unfolding 1 .
  have c: "placeholders ?c = [Suc ?n..<Suc ?n + ?k]"
    using find_condition_placeholders[of key v "1 + ?n"] by simp
  have "[1..<Suc ?L] = [1..<Suc ?n] @ [Suc ?n..<Suc ?n + ?k] @ [Suc ?n + ?k..<Suc ?L]"
    unfolding L
    using upt_add_eq_append[of 1 "Suc ?n" "?k + r"] upt_add_eq_append[of "Suc ?n" "Suc ?n + ?k" r]
    by (simp add: add.assoc)
  then have 3: "placeholders ?after = [Suc ?n + ?k..<Suc ?L]"
    using whole 2 c by (simp only: placeholders_append same_append_eq)
  show ?thesis using 1 2 3 by blast
qed

lemma find_values_split:
  "find_values (pre @ (key, v) # post)
     = find_values pre @ fst (snd (find_condition key v pc)) @ find_values post"
  by (simp add: find_values_append find_values_Cons[where pc=pc])

lemma find_condition_in3:
  "find_condition key (JArr [a, b, c]) (Suc n)
     = ([Txt key, Txt '' IN ('', Ph (n + 1), Txt '', '', Ph (n + 2), Txt '', '', Ph (n + 3), Txt '')''],
        [a, b, c], n + 4)"
proof -
  have "[Suc n..<Suc (Suc (Suc (Suc n)))] = [Suc n, Suc (Suc n), Suc (Suc (Suc n))]"
    by (simp add: upt_rec)
  then show ?thesis
    by (simp add: find_condition_def in_placeholders_def eval_nat_numeral)
qed

section \<open>The claims\<close>

text \<open>
  Claim C1. In every statement built by insert, find, update or delete, one running
  counter numbers the placeholders of all clauses (SET, WHERE, LIMIT, OFFSET): the
  placeholders of the statement, in order of appearance, are exactly
  \<open>1, 2, ..., n\<close> where \<open>n\<close> is the length of the value list. So the numbers increase
  strictly from 1, none is used twice, there are as many placeholders as values, and the
  Nth placeholder to appear is \<open>$N\<close>, which the store binds to the Nth value. This holds
  for the placeholder pieces the builders emit, and for the placeholders read back from
  the rendered text whenever the caller's table name, column names, operators and
  ordering expression contain no dollar sign of their own.
\<close>

theorem placeholder_numbering:
  "placeholders (fst (insert_statement table data returnFields))
     = [1..<Suc (length (snd (insert_statement table data returnFields)))]
   \<and> placeholders (fst (find_statement table conditions options))
     = [1..<Suc (length (snd (find_statement table conditions options)))]
   \<and> placeholders (fst (update_statement table data conditions returnFields))
     = [1..<Suc (length (snd (update_statement table data conditions returnFields)))]
   \<and> placeholders (fst (delete_statement table conditions returnFields))
     = [1..<Suc (length (snd (delete_statement table conditions returnFields)))]
   \<and> (no_dollar table \<and> no_dollar returnFields \<and> (\<forall>c \<in> set data. no_dollar (fst c)) \<longrightarrow>
        text_placeholders (render (fst (insert_statement table data returnFields)))
          = [1..<Suc (length (snd (insert_statement table data returnFields)))])
   \<and> (no_dollar table \<and> plain_options options \<and> (\<forall>c \<in> set conditions. plain_find_condition c) \<longrightarrow>
        text_placeholders (render (fst (find_statement table conditions options)))
          = [1..<Suc (length (snd (find_statement table conditions options)))])
   \<and> (no_dollar table \<and> no_dollar returnFields \<and> (\<forall>c \<in> set data. no_dollar (fst c))
        \<and> (\<forall>c \<in> set conditions. no_dollar (fst c)) \<longrightarrow>
        text_placeholders (render (fst (update_statement table data conditions returnFields)))
          = [1..<Suc (length (snd (update_statement table data conditions returnFields)))])
   \<and> (no_dollar table \<and> no_dollar returnFields \<and> (\<forall>c \<in> set conditions. no_dollar (fst c)) \<longrightarrow>
        text_placeholders (render (fst (delete_statement table conditions returnFields)))
          = [1..<Suc (length (snd (delete_statement table conditions returnFields)))])"
proof -
  have i: "placeholders (fst (insert_statement table data returnFields))
     = [1..<Suc (length (snd (insert_statement table data returnFields)))]"
    by (simp add: insert_statement_placeholders insert_statement_values)
  note f = find_statement_placeholders[of table conditions options]
  note u = update_statement_placeholders[of table data conditions returnFields]
  note d = delete_statement_placeholders[of table conditions returnFields]
  have ti: "text_placeholders (render (fst (insert_statement table data returnFields)))
          = [1..<Suc (length (snd (insert_statement table data returnFields)))]"
    if "no_dollar table \<and> no_dollar returnFields \<and> (\<forall>c \<in> set data. no_dollar (fst c))"
    using that i by (simp add: text_safe_scan text_safe_insert_statement)
  have tf: "text_placeholders (render (fst (find_statement table conditions options)))
          = [1..<Suc (length (snd (find_statement table conditions options)))]"
    if "no_dollar table \<and> plain_options options \<and> (\<forall>c \<in> set conditions. plain_find_condition c)"
    using that f by (simp add: text_safe_scan text_safe_find_statement)
  have tu: "text_placeholders (render (fst (update_statement table data conditions returnFields)))
          = [1..<Suc (length (snd (update_statement table data conditions returnFields)))]"
    if "no_dollar table \<and> no_dollar returnFields \<and> (\<forall>c \<in> set data. no_dollar (fst c))
        \<and> (\<forall>c \<in> set conditions. no_dollar (fst c))"
    using that u by (simp add: text_safe_scan text_safe_update_statement)
  have td: "text_placeholders (render (fst (delete_statement table conditions returnFields)))
          = [1..<Suc (length (snd (delete_statement table conditions returnFields)))]"
    if "no_dollar table \<and> no_dollar returnFields \<and> (\<forall>c \<in> set conditions. no_dollar (fst c))"
    using that d by (simp add: text_safe_scan text_safe_delete_statement)
  show ?thesis
    using i f u d ti tf tu td by blast
qed

theorem placeholder_numbering_witness:
  "no_dollar ''designs'' \<and> no_dollar ''*''
   \<and> no_dollar ''approved'' \<and> no_dollar ''final_dress''
   \<and> no_dollar ''design_id'' \<and> no_dollar ''client''
   \<and> plain_find_condition (''design_id'', JArr [JStr ''D001'', JStr ''D002''])
   \<and> plain_find_condition (''client'', JNull)
   \<and> plain_options [(''limit'', JNum 20)]
   \<and> text_placeholders (render (fst (update_statement ''designs''
        [(''approved'', JStr ''Yes''), (''final_dress'', JStr ''Completed'')]
        [(''design_id'', JArr [JStr ''D001'', JStr ''D002'']), (''client'', JNull)] ''*''))) = [1, 2, 3, 4]
   \<and> snd (update_statement ''designs''
        [(''approved'', JStr ''Yes''), (''final_dress'', JStr ''Completed'')]
        [(''design_id'', JArr [JStr ''D001'', JStr ''D002'']), (''client'', JNull)] ''*'')
       = [JStr ''Yes'', JStr ''Completed'', JStr ''D001'', JStr ''D002'']
   \<and> text_placeholders (render (fst (find_statement ''designs''
        [(''design_id'', JArr [JStr ''D001'', JStr ''D002'']), (''client'', JNull)]
        [(''limit'', JNum 20)]))) = [1, 2, 3]
   \<and> snd (find_statement ''designs''
        [(''design_id'', JArr [JStr ''D001'', JStr ''D002'']), (''client'', JNull)]
        [(''limit'', JNum 20)]) = [JStr ''D001'', JStr ''D002'', JNum 20]
   \<and> text_placeholders (render (fst (insert_statement ''designs''
        [(''approved'', JStr ''Yes''), (''final_dress'', JStr ''Completed'')] ''*''))) = [1, 2]
   \<and> text_placeholders (render (fst (delete_statement ''designs''
        [(''design_id'', JArr [JStr ''D001'', JStr ''D002'']), (''client'', JNull)] ''*''))) = [1, 2]"
  using placeholder_numbering[of "''designs''"
      "[(''approved'', JStr ''Yes''), (''final_dress'', JStr ''Completed'')]" "''*''"
      "[(''design_id'', JArr [JStr ''D001'', JStr ''D002'']), (''client'', JNull)]"
      "[(''limit'', JNum 20)]"]
  by (simp add: update_statement_values find_statement_values delete_statement_values
      insert_statement_values where_values_Cons[where pc=1] find_values_Cons[where pc=1]
      where_condition_def find_condition_def plain_options_def js_get_def with_default_def
      limit_of_def offset_of_def no_dollar_def)

text \<open>
  Claim C2, as stated, says that update and delete with an empty condition set fail
  with the error of the unscoped-mutation guard. The guard does throw it, but inside
  the \<^verbatim>\<open>try\<close>: the \<^verbatim>\<open>catch\<close> hands it to \<^verbatim>\<open>handleError\<close>, whose default branch
  throws a new error. On a store with a working pool, the error that reaches the caller
  is not the guard's error, for update and for delete.
\<close>

theorem unscoped_mutation_counterexample:
  "fst (updateInDB empty_store ''sampling_designs'' [(''approved'', JStr ''Yes'')] [] ''*'')
     = Inl (Error ''Database operation failed: Update conditions are required to prevent updating all records'')
   \<and> fst (updateInDB empty_store ''sampling_designs'' [(''approved'', JStr ''Yes'')] [] ''*'')
     \<noteq> Inl UnscopedMutationError_update
   \<and> fst (deleteFromDB empty_store ''sampling_designs'' [] ''*'')
     = Inl (Error ''Database operation failed: Delete conditions are required to prevent deleting all records'')
   \<and> fst (deleteFromDB empty_store ''sampling_designs'' [] ''*'')
     \<noteq> Inl UnscopedMutationError_delete"
  by (simp add: updateInDB_unscoped deleteFromDB_unscoped empty_store_def
      OperationFailedError_def UnscopedMutationError_update_def UnscopedMutationError_delete_def
      Error_def)

text \<open>
  Claim C2, amended. For every table and every field mapping, once a client has been
  acquired, update with an empty condition set fails whatever the field mapping holds,
  and so does delete: the caller receives the wrapped error, whose message is
  \<^verbatim>\<open>Database operation failed: \<close> followed by the message of the guard (the update
  guard or the delete guard), and the world is left as it was. In every case, with or
  without a client, no statement is executed.
\<close>

theorem unscoped_mutation_rejected:
  "(connect_error w = None \<longrightarrow>
      updateInDB w table data [] returnFields
        = (Inl (OperationFailedError (message UnscopedMutationError_update)), w)
      \<and> deleteFromDB w table [] returnFields
        = (Inl (OperationFailedError (message UnscopedMutationError_delete)), w))
   \<and> executed (snd (updateInDB w table data [] returnFields)) = executed w
   \<and> executed (snd (deleteFromDB w table [] returnFields)) = executed w"
proof (cases "connect_error w")
  case None
  then show ?thesis by (simp add: updateInDB_unscoped deleteFromDB_unscoped)
next
  case (Some e)
  then show ?thesis
    using not_connected[of w e table data returnFields "[]"] by simp
qed

theorem unscoped_mutation_rejected_witness:
  "connect_error empty_store = None
   \<and> fst (updateInDB empty_store ''sampling_designs'' [(''approved'', JStr ''Yes'')] [] ''*'')
       = Inl (Error ''Database operation failed: Update conditions are required to prevent updating all records'')
   \<and> fst (deleteFromDB empty_store ''sampling_designs'' [] ''*'')
       = Inl (Error ''Database operation failed: Delete conditions are required to prevent deleting all records'')
   \<and> executed (snd (updateInDB empty_store ''sampling_designs'' [(''approved'', JStr ''Yes'')] [] ''*'')) = []
   \<and> executed (snd (deleteFromDB empty_store ''sampling_designs'' [] ''*'')) = []"
  using unscoped_mutation_rejected[of empty_store "''sampling_designs''"
      "[(''approved'', JStr ''Yes'')]" "''*''"]
  by (simp add: empty_store_def OperationFailedError_def UnscopedMutationError_update_def
      UnscopedMutationError_delete_def Error_def)

text \<open>
  Claim C3, as stated, says that an update matching zero rows fails with the no-match
  error. That error is thrown inside the \<^verbatim>\<open>try\<close> and replaced by \<^verbatim>\<open>handleError\<close>:
  on a store where nothing matches, the caller does not receive it.
\<close>

theorem zero_rows_counterexample:
  "fst (updateInDB empty_store ''sampling_designs'' [(''approved'', JStr ''Yes'')]
          [(''design_id'', JStr ''D001'')] ''*'')
     = Inl (Error ''Database operation failed: No records found matching the update conditions'')
   \<and> fst (updateInDB empty_store ''sampling_designs'' [(''approved'', JStr ''Yes'')]
          [(''design_id'', JStr ''D001'')] ''*'')
     \<noteq> Inl NoMatchError"
  by (simp add: updateInDB_connected empty_store_def try_catch_def handleError_def
      NoMatchError_def Error_def)

text \<open>
  Claim C3, amended. With a client acquired and a non-empty condition set: when the
  store answers the update statement with zero rows (the field mapping being non-empty,
  so that the statement is sent), update fails with the wrapped error whose message is
  \<^verbatim>\<open>Database operation failed: \<close> followed by the no-match message; when the store
  answers the delete statement with zero rows, delete returns the empty sequence and
  does not fail.
\<close>

theorem zero_rows_update_delete:
  "connect_error w = None \<and> conditions \<noteq> [] \<longrightarrow>
     (data \<noteq> []
        \<and> respond w (render (fst (update_statement table data conditions returnFields)))
             (snd (update_statement table data conditions returnFields)) = Inr []
      \<longrightarrow> fst (updateInDB w table data conditions returnFields)
            = Inl (OperationFailedError (message NoMatchError)))
     \<and> (respond w (render (fst (delete_statement table conditions returnFields)))
             (snd (delete_statement table conditions returnFields)) = Inr []
      \<longrightarrow> fst (deleteFromDB w table conditions returnFields) = Inr [])"
  by (simp add: updateInDB_connected deleteFromDB_connected try_catch_def handleError_def
      OperationFailedError_def NoMatchError_def Error_def)

theorem zero_rows_update_delete_witness:
  "connect_error empty_store = None
   \<and> [(''design_id'', JStr ''D001'')] \<noteq> [] \<and> [(''approved'', JStr ''Yes'')] \<noteq> []
   \<and> respond empty_store
         (render (fst (update_statement ''sampling_designs'' [(''approved'', JStr ''Yes'')]
            [(''design_id'', JStr ''D001'')] ''*'')))
         (snd (update_statement ''sampling_designs'' [(''approved'', JStr ''Yes'')]
            [(''design_id'', JStr ''D001'')] ''*'')) = Inr []
   \<and> respond empty_store
         (render (fst (delete_statement ''sampling_designs'' [(''design_id'', JStr ''D001'')] ''*'')))
         (snd (delete_statement ''sampling_designs'' [(''design_id'', JStr ''D001'')] ''*'')) = Inr []
   \<and> fst (updateInDB empty_store ''sampling_designs'' [(''approved'', JStr ''Yes'')]
          [(''design_id'', JStr ''D001'')] ''*'')
       = Inl (Error ''Database operation failed: No records found matching the update conditions'')
   \<and> fst (deleteFromDB empty_store ''sampling_designs'' [(''design_id'', JStr ''D001'')] ''*'')
       = Inr []"
  using zero_rows_update_delete[of empty_store "[(''design_id'', JStr ''D001'')]"
      "[(''approved'', JStr ''Yes'')]" "''sampling_designs''" "''*''"]
  by (simp add: empty_store_def OperationFailedError_def NoMatchError_def Error_def)

text \<open>
  Claim C4. The claim says that insert with an empty field mapping is invalid and
  signals a validation error. \<^verbatim>\<open>addToDB\<close> has no guard on its data, unlike
  \<^verbatim>\<open>updateInDB\<close>, which throws \<^verbatim>\<open>No data provided for update\<close> before it builds
  anything (lines 188 to 190). At the input \<^verbatim>\<open>addToDB('sampling_designs', {})\<close> the code
  builds a statement with an empty column list and an empty placeholder list and sends
  it to the store with no parameters; the caller gets the store's answer. On a store
  that rejects the statement the caller receives the store's error, wrapped by
  \<^verbatim>\<open>handleError\<close>; on a store that answers with a row the empty insert succeeds. The
  update with an empty field mapping, on the same store, fails locally and sends
  nothing.
\<close>

theorem empty_insert_sent_to_store:
  "fst (addToDB rejecting_store ''sampling_designs'' [] ''*'')
     = Inl (OperationFailedError (''syntax error at or near '' @ [CHR 0x22, CHR '')'', CHR 0x22]))
   \<and> executed (snd (addToDB rejecting_store ''sampling_designs'' [] ''*''))
     = [(nl @ ''      INSERT INTO sampling_designs ()'' @ nl @ ''      VALUES ()'' @ nl
           @ ''      RETURNING *;'' @ nl @ ''    '', [])]
   \<and> fst (addToDB one_row_store ''sampling_designs'' [] ''*'')
     = Inr [(''current_time'', JStr ''2024-01-01''), (''version'', JStr ''PostgreSQL'')]
   \<and> executed (snd (addToDB one_row_store ''sampling_designs'' [] ''*''))
     = [(nl @ ''      INSERT INTO sampling_designs ()'' @ nl @ ''      VALUES ()'' @ nl
           @ ''      RETURNING *;'' @ nl @ ''    '', [])]
   \<and> fst (updateInDB one_row_store ''sampling_designs'' [] [(''design_id'', JStr ''D001'')] ''*'')
     = Inl (OperationFailedError (message ValidationError_update))
   \<and> executed (snd (updateInDB one_row_store ''sampling_designs'' []
         [(''design_id'', JStr ''D001'')] ''*'')) = []"
  by (simp add: addToDB_connected updateInDB_no_data rejecting_store_def one_row_store_def
      try_catch_def handleError_def OperationFailedError_def Error_def insert_statement_def
      nl_def)

text \<open>
  The parameter binding of insert. For every field mapping, insert produces exactly as
  many positional parameters as fields, in mapping-iteration order: the values are the
  values of the mapping in order, the column list is the keys in order, the
  placeholders are \<open>$1\<close> to \<open>$n\<close> in order, so the Nth placeholder binds the Nth listed
  field's value; and with a client acquired this statement and these values are what
  insert sends to the store.
\<close>

lemma insert_parameters:
  "snd (insert_statement table data returnFields) = map snd data
   \<and> length (snd (insert_statement table data returnFields)) = length data
   \<and> fst (insert_statement table data returnFields)
       = [Txt (nl @ ''      INSERT INTO ''), Txt table, Txt '' ('',
          Txt (join '', '' (map fst data)), Txt ('')'' @ nl @ ''      VALUES ('')]
         @ join [Txt '', ''] (map (\<lambda>n. [Ph n]) [1..<Suc (length data)])
         @ [Txt ('')'' @ nl @ ''      RETURNING ''), Txt returnFields, Txt ('';'' @ nl @ ''    '')]
   \<and> (connect_error w = None \<longrightarrow>
        executed (snd (addToDB w table data returnFields))
          = executed w @ [(render (fst (insert_statement table data returnFields)), map snd data)])"
proof -
  have "map (\<lambda>index. [Ph (index + 1)]) [0..<length data] = map (\<lambda>n. [Ph n]) [1..<Suc (length data)]"
    using map_Suc_upt[of 0 "length data"] by (simp add: map_Suc_upt[symmetric] del: map_Suc_upt upt_Suc)
  then show ?thesis
    by (simp add: insert_statement_def addToDB_connected[unfolded insert_statement_def])
qed

lemma insert_parameters_example:
  "connect_error one_row_store = None
   \<and> executed (snd (addToDB one_row_store ''sampling_designs''
         [(''design_id'', JStr ''D001''), (''client'', JStr ''John Doe''), (''approved'', JStr ''False'')] ''*''))
       = [(nl @ ''      INSERT INTO sampling_designs (design_id, client, approved)'' @ nl
             @ ''      VALUES ($1, $2, $3)'' @ nl @ ''      RETURNING *;'' @ nl @ ''    '',
           [JStr ''D001'', JStr ''John Doe'', JStr ''False''])]"
  using insert_parameters[of "''sampling_designs''"
      "[(''design_id'', JStr ''D001''), (''client'', JStr ''John Doe''), (''approved'', JStr ''False'')]"
      "''*''" one_row_store]
  by (simp add: one_row_store_def nl_def show_nat.simps digit_char_def)

text \<open>
  Claim C5, as stated, says that the error mapping is applied on every failure path of
  every operation. Each operation awaits \<^verbatim>\<open>pool.connect()\<close> before its \<^verbatim>\<open>try\<close> (lines
  68, 104, 179 and 250), so an error of the pool is outside every \<^verbatim>\<open>catch\<close>. On a pool
  that refuses the connection, the caller of each of the four operations receives the
  pool's error as it is, with its code and its message, and not the error that
  \<^verbatim>\<open>handleError\<close> makes of it.
\<close>

theorem failure_path_counterexample:
  "fst (getFromDB refusing_pool ''designs'' [] [])
     = Inl \<lparr>code = Some ''ECONNREFUSED'', message = ''connect ECONNREFUSED 127.0.0.1:5432''\<rparr>
   \<and> fst (getFromDB refusing_pool ''designs'' [] [])
     \<noteq> handleError ''getFromDB''
         \<lparr>code = Some ''ECONNREFUSED'', message = ''connect ECONNREFUSED 127.0.0.1:5432''\<rparr>
   \<and> fst (addToDB refusing_pool ''designs'' [(''client'', JStr ''John Doe'')] ''*'')
     \<noteq> handleError ''addToDB''
         \<lparr>code = Some ''ECONNREFUSED'', message = ''connect ECONNREFUSED 127.0.0.1:5432''\<rparr>
   \<and> fst (updateInDB refusing_pool ''designs'' [(''client'', JStr ''John Doe'')]
          [(''design_id'', JStr ''D001'')] ''*'')
     \<noteq> handleError ''updateInDB''
         \<lparr>code = Some ''ECONNREFUSED'', message = ''connect ECONNREFUSED 127.0.0.1:5432''\<rparr>
   \<and> fst (deleteFromDB refusing_pool ''designs'' [(''design_id'', JStr ''D001'')] ''*'')
     \<noteq> handleError ''deleteFromDB''
         \<lparr>code = Some ''ECONNREFUSED'', message = ''connect ECONNREFUSED 127.0.0.1:5432''\<rparr>"
  by (simp add: addToDB_def getFromDB_def updateInDB_def deleteFromDB_def pool_connect_def
      refusing_pool_def handleError_def Error_def)

text \<open>
  Claim C5, amended. The error mapping turns a unique-constraint violation (code 23505)
  into the duplicate-record error, a foreign-key violation (23503) into the
  dangling-reference error, a not-null violation (23502) into the missing-field error,
  relation-not-found (42P01) into the unknown-table error, and any other error into the
  operation-failed error that wraps the original message. For every input error it
  throws: it never returns a value. Once a client has been acquired, every operation
  applies it to whatever the store throws at its statement. When the pool rejects the
  acquisition, every operation fails with the pool's error as it is, unmapped.
\<close>

theorem handleError_mapping:
  "(handleError operation \<lparr>code = Some ''23505'', message = msg\<rparr> :: js_error + 'a)
       = Inl DuplicateRecordError
   \<and> (handleError operation \<lparr>code = Some ''23503'', message = msg\<rparr> :: js_error + 'a)
       = Inl DanglingReferenceError
   \<and> (handleError operation \<lparr>code = Some ''23502'', message = msg\<rparr> :: js_error + 'a)
       = Inl MissingFieldError
   \<and> (handleError operation \<lparr>code = Some ''42P01'', message = msg\<rparr> :: js_error + 'a)
       = Inl UnknownTableError
   \<and> (code error \<notin> {Some ''23505'', Some ''23503'', Some ''23502'', Some ''42P01''} \<longrightarrow>
        (handleError operation error :: js_error + 'a) = Inl (OperationFailedError (message error)))
   \<and> (\<exists>thrown. (handleError operation error :: js_error + 'a) = Inl thrown)
   \<and> (\<forall>returned :: 'a. handleError operation error \<noteq> Inr returned)
   \<and> (connect_error w = None \<longrightarrow>
        (respond w (render (fst (insert_statement table data returnFields))) (map snd data) = Inl error
           \<longrightarrow> fst (addToDB w table data returnFields) = handleError ''addToDB'' error)
        \<and> (respond w (render (fst (find_statement table conditions options)))
               (snd (find_statement table conditions options)) = Inl error
           \<longrightarrow> fst (getFromDB w table conditions options) = handleError ''getFromDB'' error)
        \<and> (conditions \<noteq> [] \<and> data \<noteq> []
             \<and> respond w (render (fst (update_statement table data conditions returnFields)))
                  (snd (update_statement table data conditions returnFields)) = Inl error
           \<longrightarrow> fst (updateInDB w table data conditions returnFields)
                 = handleError ''updateInDB'' error)
        \<and> (conditions \<noteq> []
             \<and> respond w (render (fst (delete_statement table conditions returnFields)))
                  (snd (delete_statement table conditions returnFields)) = Inl error
           \<longrightarrow> fst (deleteFromDB w table conditions returnFields)
                 = handleError ''deleteFromDB'' error))
   \<and> (connect_error w = Some error \<longrightarrow>
        fst (addToDB w table data returnFields) = Inl error
        \<and> fst (getFromDB w table conditions options) = Inl error
        \<and> fst (updateInDB w table data conditions returnFields) = Inl error
        \<and> fst (deleteFromDB w table conditions returnFields) = Inl error)"
proof -
  have m: "(handleError operation \<lparr>code = Some ''23505'', message = msg\<rparr> :: js_error + 'a)
       = Inl DuplicateRecordError
   \<and> (handleError operation \<lparr>code = Some ''23503'', message = msg\<rparr> :: js_error + 'a)
       = Inl DanglingReferenceError
   \<and> (handleError operation \<lparr>code = Some ''23502'', message = msg\<rparr> :: js_error + 'a)
       = Inl MissingFieldError
   \<and> (handleError operation \<lparr>code = Some ''42P01'', message = msg\<rparr> :: js_error + 'a)
       = Inl UnknownTableError
   \<and> (code error \<notin> {Some ''23505'', Some ''23503'', Some ''23502'', Some ''42P01''} \<longrightarrow>
        (handleError operation error :: js_error + 'a) = Inl (OperationFailedError (message error)))
   \<and> (\<exists>thrown. (handleError operation error :: js_error + 'a) = Inl thrown)
   \<and> (\<forall>returned :: 'a. handleError operation error \<noteq> Inr returned)"
    by (simp add: handleError_def DuplicateRecordError_def DanglingReferenceError_def
      MissingFieldError_def UnknownTableError_def OperationFailedError_def)
  have o: "connect_error w = None \<longrightarrow>
        (respond w (render (fst (insert_statement table data returnFields))) (map snd data) = Inl error
           \<longrightarrow> fst (addToDB w table data returnFields) = handleError ''addToDB'' error)
        \<and> (respond w (render (fst (find_statement table conditions options)))
               (snd (find_statement table conditions options)) = Inl error
           \<longrightarrow> fst (getFromDB w table conditions options) = handleError ''getFromDB'' error)
        \<and> (conditions \<noteq> [] \<and> data \<noteq> []
             \<and> respond w (render (fst (update_statement table data conditions returnFields)))
                  (snd (update_statement table data conditions returnFields)) = Inl error
           \<longrightarrow> fst (updateInDB w table data conditions returnFields)
                 = handleError ''updateInDB'' error)
        \<and> (conditions \<noteq> []
             \<and> respond w (render (fst (delete_statement table conditions returnFields)))
                  (snd (delete_statement table conditions returnFields)) = Inl error
           \<longrightarrow> fst (deleteFromDB w table conditions returnFields)
                 = handleError ''deleteFromDB'' error)"
    by (simp add: addToDB_connected getFromDB_connected updateInDB_connected
        deleteFromDB_connected try_catch_def)
  have n: "connect_error w = Some error \<longrightarrow>
        fst (addToDB w table data returnFields) = Inl error
        \<and> fst (getFromDB w table conditions options) = Inl error
        \<and> fst (updateInDB w table data conditions returnFields) = Inl error
        \<and> fst (deleteFromDB w table conditions returnFields) = Inl error"
    using not_connected[of w error table data returnFields conditions options] by simp
  show ?thesis using m o n by (intro conjI) blast+
qed

theorem handleError_mapping_witness:
  "code \<lparr>code = Some ''42601'', message = ''syntax error''\<rparr>
     \<notin> {Some ''23505'', Some ''23503'', Some ''23502'', Some ''42P01''}
   \<and> (handleError ''addToDB'' \<lparr>code = Some ''42601'', message = ''syntax error''\<rparr> :: js_error + row)
       = Inl (Error ''Database operation failed: syntax error'')
   \<and> (handleError ''addToDB'' \<lparr>code = Some ''23505'', message = ''duplicate key''\<rparr> :: js_error + row)
       = Inl (Error ''Record with this identifier already exists'')
   \<and> connect_error rejecting_store = None
   \<and> respond rejecting_store (render (fst (find_statement ''designs'' [] [])))
         (snd (find_statement ''designs'' [] []))
       = Inl \<lparr>code = Some ''42601'', message = ''syntax error at or near '' @ [CHR 0x22, CHR '')'', CHR 0x22]\<rparr>
   \<and> fst (getFromDB rejecting_store ''designs'' [] [])
       = Inl (Error (''Database operation failed: syntax error at or near '' @ [CHR 0x22, CHR '')'', CHR 0x22]))
   \<and> connect_error refusing_pool
       = Some \<lparr>code = Some ''ECONNREFUSED'', message = ''connect ECONNREFUSED 127.0.0.1:5432''\<rparr>
   \<and> fst (getFromDB refusing_pool ''designs'' [] [])
       = Inl \<lparr>code = Some ''ECONNREFUSED'', message = ''connect ECONNREFUSED 127.0.0.1:5432''\<rparr>
   \<and> fst (updateInDB refusing_pool ''designs'' [] [] ''*'')
       = Inl \<lparr>code = Some ''ECONNREFUSED'', message = ''connect ECONNREFUSED 127.0.0.1:5432''\<rparr>"
  using handleError_mapping[where ?'a = row, of "''addToDB''" "''duplicate key''"
      "\<lparr>code = Some ''42601'', message = ''syntax error''\<rparr>"]
    handleError_mapping[where ?'a = row, of "''getFromDB''" "''duplicate key''"
      "\<lparr>code = Some ''42601'', message = ''syntax error at or near '' @ [CHR 0x22, CHR '')'', CHR 0x22]\<rparr>"
      rejecting_store "''designs''" "[]" "''*''" "[]" "[]"]
    handleError_mapping[where ?'a = row, of "''getFromDB''" "''duplicate key''"
      "\<lparr>code = Some ''ECONNREFUSED'', message = ''connect ECONNREFUSED 127.0.0.1:5432''\<rparr>"
      refusing_pool "''designs''" "[]" "''*''" "[]" "[]"]
  by (simp add: OperationFailedError_def DuplicateRecordError_def rejecting_store_def
      refusing_pool_def handleError_def)

text \<open>
  Claim C6. Every error that insert, update or delete throw themselves (the empty
  condition guards of update and delete, the empty data guard of update, the zero-row
  update, the zero-row insert) is caught and goes through the default branch of the
  error mapping: the caller observes an error without code whose message is
  \<^verbatim>\<open>Database operation failed: \<close> followed by the local message, so the local errors
  differ at the caller by that message text only.
\<close>

theorem local_errors_wrapped:
  "try_catch operation (Inl (Error msg)) = Inl (OperationFailedError msg)
   \<and> (connect_error w = None \<longrightarrow>
        fst (updateInDB w table data [] returnFields)
          = Inl (OperationFailedError (message UnscopedMutationError_update))
        \<and> fst (deleteFromDB w table [] returnFields)
          = Inl (OperationFailedError (message UnscopedMutationError_delete))
        \<and> (conditions \<noteq> [] \<longrightarrow>
             fst (updateInDB w table [] conditions returnFields)
               = Inl (OperationFailedError (message ValidationError_update)))
        \<and> (conditions \<noteq> [] \<and> data \<noteq> []
             \<and> respond w (render (fst (update_statement table data conditions returnFields)))
                  (snd (update_statement table data conditions returnFields)) = Inr []
             \<longrightarrow> fst (updateInDB w table data conditions returnFields)
                   = Inl (OperationFailedError (message NoMatchError)))
        \<and> (respond w (render (fst (insert_statement table data returnFields))) (map snd data) = Inr []
             \<longrightarrow> fst (addToDB w table data returnFields)
                   = Inl (OperationFailedError (message NoRowsReturnedError))))"
  by (simp add: try_catch_local updateInDB_unscoped deleteFromDB_unscoped updateInDB_no_data
      updateInDB_connected addToDB_connected NoMatchError_def NoRowsReturnedError_def
      Error_def[of "''No records found matching the update conditions''", symmetric]
      Error_def[of "''Insert operation failed - no record returned''", symmetric])

theorem local_errors_wrapped_witness:
  "connect_error empty_store = None
   \<and> fst (updateInDB empty_store ''sampling_designs'' [(''approved'', JStr ''Yes'')] [] ''*'')
       = Inl (Error ''Database operation failed: Update conditions are required to prevent updating all records'')
   \<and> fst (deleteFromDB empty_store ''sampling_designs'' [] ''*'')
       = Inl (Error ''Database operation failed: Delete conditions are required to prevent deleting all records'')
   \<and> fst (updateInDB empty_store ''sampling_designs'' [] [(''design_id'', JStr ''D001'')] ''*'')
       = Inl (Error ''Database operation failed: No data provided for update'')
   \<and> fst (updateInDB empty_store ''sampling_designs'' [(''approved'', JStr ''Yes'')]
          [(''design_id'', JStr ''D001'')] ''*'')
       = Inl (Error ''Database operation failed: No records found matching the update conditions'')
   \<and> fst (addToDB empty_store ''sampling_designs'' [(''approved'', JStr ''Yes'')] ''*'')
       = Inl (Error ''Database operation failed: Insert operation failed - no record returned'')"
  using local_errors_wrapped[where ?'a = row, of "''updateInDB''" "''x''" empty_store "''sampling_designs''"
      "[(''approved'', JStr ''Yes'')]" "''*''" "[(''design_id'', JStr ''D001'')]"]
  by (simp add: empty_store_def OperationFailedError_def UnscopedMutationError_update_def
      UnscopedMutationError_delete_def ValidationError_update_def NoMatchError_def
      NoRowsReturnedError_def)




text \<open>
  Claim C8. The values of a find are the condition parameters, then the limit if it is
  truthy, then the offset if it is truthy, and nothing else. With \<open>limit = 10\<close> and
  \<open>offset = 5\<close> exactly two trailing parameters are appended after all condition
  parameters, 10 then 5, and the statement ends with the LIMIT placeholder followed by
  the OFFSET placeholder, numbered right after the condition placeholders.
\<close>

theorem limit_offset_parameters:
  "snd (find_statement table conditions options)
     = find_values conditions
       @ (if truthy (limit_of options) then [limit_of options] else [])
       @ (if truthy (offset_of options) then [offset_of options] else [])
   \<and> (js_get options ''limit'' = JNum 10 \<and> js_get options ''offset'' = JNum 5 \<longrightarrow>
        snd (find_statement table conditions options) = find_values conditions @ [JNum 10, JNum 5]
        \<and> (\<exists>q. fst (find_statement table conditions options)
                = q @ [Txt '' LIMIT '', Ph (length (find_values conditions) + 1),
                       Txt '' OFFSET '', Ph (length (find_values conditions) + 2)]
             \<and> placeholders q = [1..<Suc (length (find_values conditions))]))"
proof -
  have v: "snd (find_statement table conditions options)
     = find_values conditions
       @ (if truthy (limit_of options) then [limit_of options] else [])
       @ (if truthy (offset_of options) then [offset_of options] else [])"
    by (rule find_statement_values)
  have "snd (find_statement table conditions options) = find_values conditions @ [JNum 10, JNum 5]
        \<and> (\<exists>q. fst (find_statement table conditions options)
                = q @ [Txt '' LIMIT '', Ph (length (find_values conditions) + 1),
                       Txt '' OFFSET '', Ph (length (find_values conditions) + 2)]
             \<and> placeholders q = [1..<Suc (length (find_values conditions))])"
    if h: "js_get options ''limit'' = JNum 10 \<and> js_get options ''offset'' = JNum 5"
  proof -
    have l: "limit_of options = JNum 10" and o: "offset_of options = JNum 5"
      using h by (simp_all add: limit_of_def offset_of_def with_default_def)
    let ?q = "[Txt ''SELECT '', Txt (js_to_string (with_default (js_get options ''columns'') (JStr ''*''))),
      Txt '' FROM '', Txt table]
     @ (if conditions = [] then []
        else Txt '' WHERE ''
          # join [Txt '' '', Txt (js_to_string (with_default (js_get options ''operator'') (JStr ''AND''))),
                  Txt '' '']
              (find_clauses conditions 1))
     @ (if truthy (with_default (js_get options ''orderBy'') JNull)
        then [Txt '' ORDER BY '', Txt (js_to_string (with_default (js_get options ''orderBy'') JNull))]
        else [])"
    have 1: "fst (find_statement table conditions options)
                = ?q @ [Txt '' LIMIT '', Ph (length (find_values conditions) + 1),
                       Txt '' OFFSET '', Ph (length (find_values conditions) + 2)]"
      by (simp add: find_statement_pieces l o)
    have 2: "placeholders ?q = [1..<Suc (length (find_values conditions))]"
      by (simp add: placeholders_join find_clauses_placeholders)
    show ?thesis using 1 2 v l o by auto
  qed
  then show ?thesis using v by blast
qed

theorem limit_offset_parameters_witness:
  "js_get [(''limit'', JNum 10), (''offset'', JNum 5)] ''limit'' = JNum 10
   \<and> js_get [(''limit'', JNum 10), (''offset'', JNum 5)] ''offset'' = JNum 5
   \<and> snd (find_statement ''designs'' [(''client'', JStr ''John Doe'')]
          [(''limit'', JNum 10), (''offset'', JNum 5)])
       = [JStr ''John Doe'', JNum 10, JNum 5]
   \<and> render (fst (find_statement ''designs'' [(''client'', JStr ''John Doe'')]
          [(''limit'', JNum 10), (''offset'', JNum 5)]))
       = ''SELECT * FROM designs WHERE client = $1 LIMIT $2 OFFSET $3''
   \<and> snd (find_statement ''designs'' [(''client'', JStr ''John Doe'')] [(''limit'', JNum 0)])
       = [JStr ''John Doe'']"
proof -
  have e: "find_statement ''designs'' [(''client'', JStr ''John Doe'')]
          [(''limit'', JNum 10), (''offset'', JNum 5)]
     = ([Txt ''SELECT '', Txt ''*'', Txt '' FROM '', Txt ''designs'', Txt '' WHERE '',
         Txt ''client'', Txt '' = '', Ph 1, Txt '' LIMIT '', Ph 2, Txt '' OFFSET '', Ph 3],
        [JStr ''John Doe'', JNum 10, JNum 5])"
    by code_simp
  have r: "render [Txt ''SELECT '', Txt ''*'', Txt '' FROM '', Txt ''designs'', Txt '' WHERE '',
         Txt ''client'', Txt '' = '', Ph 1, Txt '' LIMIT '', Ph 2, Txt '' OFFSET '', Ph 3]
       = ''SELECT * FROM designs WHERE client = $1 LIMIT $2 OFFSET $3''"
    by code_simp
  have er: "render (fst (find_statement ''designs'' [(''client'', JStr ''John Doe'')]
          [(''limit'', JNum 10), (''offset'', JNum 5)]))
       = ''SELECT * FROM designs WHERE client = $1 LIMIT $2 OFFSET $3''"
    by (simp only: e fst_conv r)
  have es: "snd (find_statement ''designs'' [(''client'', JStr ''John Doe'')]
          [(''limit'', JNum 10), (''offset'', JNum 5)])
       = [JStr ''John Doe'', JNum 10, JNum 5]"
    by (simp only: e snd_conv)
  show ?thesis
    using limit_offset_parameters[of "''designs''" "[(''client'', JStr ''John Doe'')]"
        "[(''limit'', JNum 10), (''offset'', JNum 5)]"]
      limit_offset_parameters[of "''designs''" "[(''client'', JStr ''John Doe'')]"
        "[(''limit'', JNum 0)]"]
    by (simp add: er es js_get_def find_values_Cons[where pc=1] find_condition_def limit_of_def
        offset_of_def with_default_def)
qed

text \<open>
  Claim C9. When the condition set of a find maps a key to the sequence \<open>[1, 2, 3]\<close>,
  the statement contains the membership clause \<open>key IN ($a, $b, $c)\<close> with exactly
  three placeholders, numbered consecutively after the placeholders of the conditions
  before it; the next placeholder of the statement, if any, is three further on; and
  the values 1, 2, 3 are appended to the parameter list in that order, right after the
  values of the conditions before it.
\<close>

theorem membership_clause:
  "conditions = pre @ (key, JArr [JNum 1, JNum 2, JNum 3]) # post \<longrightarrow>
     (\<exists>before after.
        fst (find_statement table conditions options)
          = before
            @ [Txt key, Txt '' IN ('', Ph (length (find_values pre) + 1), Txt '', '',
               Ph (length (find_values pre) + 2), Txt '', '',
               Ph (length (find_values pre) + 3), Txt '')'']
            @ after
        \<and> placeholders before = [1..<length (find_values pre) + 1]
        \<and> placeholders after
            = [length (find_values pre) + 4..<Suc (length (snd (find_statement table conditions options)))])
     \<and> find_values conditions = find_values pre @ [JNum 1, JNum 2, JNum 3] @ find_values post
     \<and> (\<exists>trailing. snd (find_statement table conditions options)
           = find_values pre @ [JNum 1, JNum 2, JNum 3] @ find_values post @ trailing)"
proof
  assume c: "conditions = pre @ (key, JArr [JNum 1, JNum 2, JNum 3]) # post"
  let ?n = "length (find_values pre)"
  have fc: "find_condition key (JArr [JNum 1, JNum 2, JNum 3]) (Suc ?n)
     = ([Txt key, Txt '' IN ('', Ph (?n + 1), Txt '', '', Ph (?n + 2), Txt '', '',
         Ph (?n + 3), Txt '')''],
        [JNum 1, JNum 2, JNum 3], ?n + 4)"
    by (rule find_condition_in3)
  obtain before after where
    1: "fst (find_statement table conditions options)
          = before @ fst (find_condition key (JArr [JNum 1, JNum 2, JNum 3]) (1 + ?n)) @ after"
    and 2: "placeholders before = [1..<Suc ?n]"
    and 3: "placeholders after
         = [Suc ?n + length (fst (snd (find_condition key (JArr [JNum 1, JNum 2, JNum 3]) (1 + ?n))))
            ..<Suc (length (snd (find_statement table conditions options)))]"
    using find_statement_clause[OF c, of table options] by blast
  have p1: "fst (find_statement table conditions options)
          = before
            @ [Txt key, Txt '' IN ('', Ph (?n + 1), Txt '', '', Ph (?n + 2), Txt '', '',
               Ph (?n + 3), Txt '')'']
            @ after"
    using 1 by (simp add: fc)
  have p2: "placeholders before = [1..<length (find_values pre) + 1]"
    using 2 by (simp del: upt_Suc)
  have p3: "placeholders after = [length (find_values pre) + 4..<Suc (length (snd (find_statement table conditions options)))]"
    using 3 by (simp add: fc eval_nat_numeral del: upt_Suc)
  have b: "find_values conditions = find_values pre @ [JNum 1, JNum 2, JNum 3] @ find_values post"
    unfolding c
    using find_values_split[of pre key "JArr [JNum 1, JNum 2, JNum 3]" post "Suc ?n"]
    by (simp add: fc)
  have d: "\<exists>trailing. snd (find_statement table conditions options)
           = find_values pre @ [JNum 1, JNum 2, JNum 3] @ find_values post @ trailing"
    unfolding find_statement_values b by simp
  show "(\<exists>before after.
        fst (find_statement table conditions options)
          = before
            @ [Txt key, Txt '' IN ('', Ph (length (find_values pre) + 1), Txt '', '',
               Ph (length (find_values pre) + 2), Txt '', '',
               Ph (length (find_values pre) + 3), Txt '')'']
            @ after
        \<and> placeholders before = [1..<length (find_values pre) + 1]
        \<and> placeholders after
            = [length (find_values pre) + 4..<Suc (length (snd (find_statement table conditions options)))])
     \<and> find_values conditions = find_values pre @ [JNum 1, JNum 2, JNum 3] @ find_values post
     \<and> (\<exists>trailing. snd (find_statement table conditions options)
           = find_values pre @ [JNum 1, JNum 2, JNum 3] @ find_values post @ trailing)"
    using p1 p2 p3 b d by blast
qed

theorem membership_clause_witness:
  "[(''fabric'', JStr ''Cotton''), (''id'', JArr [JNum 1, JNum 2, JNum 3])]
     = [(''fabric'', JStr ''Cotton'')] @ (''id'', JArr [JNum 1, JNum 2, JNum 3]) # []
   \<and> find_values [(''fabric'', JStr ''Cotton''), (''id'', JArr [JNum 1, JNum 2, JNum 3])]
       = [JStr ''Cotton'', JNum 1, JNum 2, JNum 3]
   \<and> render (fst (find_statement ''designs''
         [(''fabric'', JStr ''Cotton''), (''id'', JArr [JNum 1, JNum 2, JNum 3])] []))
       = ''SELECT * FROM designs WHERE fabric = $1 AND id IN ($2, $3, $4)''
   \<and> snd (find_statement ''designs''
         [(''fabric'', JStr ''Cotton''), (''id'', JArr [JNum 1, JNum 2, JNum 3])] [])
       = [JStr ''Cotton'', JNum 1, JNum 2, JNum 3]"
proof -
  have e: "find_statement ''designs''
         [(''fabric'', JStr ''Cotton''), (''id'', JArr [JNum 1, JNum 2, JNum 3])] []
     = ([Txt ''SELECT '', Txt ''*'', Txt '' FROM '', Txt ''designs'', Txt '' WHERE '',
         Txt ''fabric'', Txt '' = '', Ph 1, Txt '' '', Txt ''AND'', Txt '' '',
         Txt ''id'', Txt '' IN ('', Ph 2, Txt '', '', Ph 3, Txt '', '', Ph 4, Txt '')''],
        [JStr ''Cotton'', JNum 1, JNum 2, JNum 3])"
    by code_simp
  have r: "render [Txt ''SELECT '', Txt ''*'', Txt '' FROM '', Txt ''designs'', Txt '' WHERE '',
         Txt ''fabric'', Txt '' = '', Ph 1, Txt '' '', Txt ''AND'', Txt '' '',
         Txt ''id'', Txt '' IN ('', Ph 2, Txt '', '', Ph 3, Txt '', '', Ph 4, Txt '')'']
       = ''SELECT * FROM designs WHERE fabric = $1 AND id IN ($2, $3, $4)''"
    by code_simp
  have er: "render (fst (find_statement ''designs''
         [(''fabric'', JStr ''Cotton''), (''id'', JArr [JNum 1, JNum 2, JNum 3])] []))
       = ''SELECT * FROM designs WHERE fabric = $1 AND id IN ($2, $3, $4)''"
    by (simp only: e fst_conv r)
  have es: "snd (find_statement ''designs''
         [(''fabric'', JStr ''Cotton''), (''id'', JArr [JNum 1, JNum 2, JNum 3])] [])
       = [JStr ''Cotton'', JNum 1, JNum 2, JNum 3]"
    by (simp only: e snd_conv)
  show ?thesis
    using membership_clause[of "[(''fabric'', JStr ''Cotton''), (''id'', JArr [JNum 1, JNum 2, JNum 3])]"
      "[(''fabric'', JStr ''Cotton'')]" "''id''" "[]" "''designs''" "[]"]
    by (simp add: er es find_values_Cons[where pc=1] find_condition_def)
qed

text \<open>
  Claim C10. A condition that maps a key to \<^verbatim>\<open>null\<close> compiles to the clause
  \<open>key IS NULL\<close>, pushes no value and leaves the parameter counter as it is. In a
  find, the clause appears in the statement, the placeholders after it continue the
  numbering of those before it, and the parameter list and the placeholders are the
  same as those of the find without this condition.
\<close>

theorem null_clause:
  "find_condition key JNull paramCount = ([Txt key, Txt '' IS NULL''], [], paramCount)
   \<and> (conditions = pre @ (key, JNull) # post \<longrightarrow>
        (\<exists>before after.
           fst (find_statement table conditions options)
             = before @ [Txt key, Txt '' IS NULL''] @ after
           \<and> placeholders before = [1..<length (find_values pre) + 1]
           \<and> placeholders after
               = [length (find_values pre) + 1..<Suc (length (snd (find_statement table conditions options)))])
        \<and> find_values conditions = find_values pre @ find_values post
        \<and> snd (find_statement table conditions options)
            = snd (find_statement table (pre @ post) options)
        \<and> placeholders (fst (find_statement table conditions options))
            = placeholders (fst (find_statement table (pre @ post) options)))"
proof (intro conjI impI)
  show fc: "find_condition key JNull paramCount = ([Txt key, Txt '' IS NULL''], [], paramCount)"
    for paramCount
    by (simp add: find_condition_def)
  assume c: "conditions = pre @ (key, JNull) # post"
  let ?n = "length (find_values pre)"
  obtain before after where
    1: "fst (find_statement table conditions options)
          = before @ fst (find_condition key JNull (1 + ?n)) @ after"
    and 2: "placeholders before = [1..<Suc ?n]"
    and 3: "placeholders after
         = [Suc ?n + length (fst (snd (find_condition key JNull (1 + ?n))))
            ..<Suc (length (snd (find_statement table conditions options)))]"
    using find_statement_clause[OF c, of table options] by blast
  have p1: "fst (find_statement table conditions options)
          = before @ [Txt key, Txt '' IS NULL''] @ after"
    using 1 by (simp add: fc)
  have p2: "placeholders before = [1..<length (find_values pre) + 1]"
    using 2 by (simp del: upt_Suc)
  have p3: "placeholders after = [length (find_values pre) + 1..<Suc (length (snd (find_statement table conditions options)))]"
    using 3 by (simp add: fc del: upt_Suc)
  show "\<exists>before after.
           fst (find_statement table conditions options)
             = before @ [Txt key, Txt '' IS NULL''] @ after
           \<and> placeholders before = [1..<length (find_values pre) + 1]
           \<and> placeholders after
               = [length (find_values pre) + 1..<Suc (length (snd (find_statement table conditions options)))]"
    using p1 p2 p3 by blast
  show b: "find_values conditions = find_values pre @ find_values post"
    unfolding c using find_values_split[of pre key JNull post 1] by (simp add: fc)
  show v: "snd (find_statement table conditions options)
            = snd (find_statement table (pre @ post) options)"
    unfolding find_statement_values b by (simp add: find_values_append)
  show "placeholders (fst (find_statement table conditions options))
            = placeholders (fst (find_statement table (pre @ post) options))"
    unfolding find_statement_placeholders v ..
qed

theorem null_clause_witness:
  "[(''fabric'', JStr ''Cotton''), (''status'', JNull), (''client'', JStr ''John Doe'')]
     = [(''fabric'', JStr ''Cotton'')] @ (''status'', JNull) # [(''client'', JStr ''John Doe'')]
   \<and> snd (find_statement ''designs''
          [(''fabric'', JStr ''Cotton''), (''status'', JNull), (''client'', JStr ''John Doe'')] [])
       = [JStr ''Cotton'', JStr ''John Doe'']
   \<and> render (fst (find_statement ''designs''
          [(''fabric'', JStr ''Cotton''), (''status'', JNull), (''client'', JStr ''John Doe'')] []))
       = ''SELECT * FROM designs WHERE fabric = $1 AND status IS NULL AND client = $2''
   \<and> [(''status'', JNull)] = [] @ (''status'', JNull) # []
   \<and> snd (find_statement ''designs'' [(''status'', JNull)] []) = []
   \<and> render (fst (find_statement ''designs'' [(''status'', JNull)] []))
       = ''SELECT * FROM designs WHERE status IS NULL''"
proof -
  have e: "find_statement ''designs''
          [(''fabric'', JStr ''Cotton''), (''status'', JNull), (''client'', JStr ''John Doe'')] []
     = ([Txt ''SELECT '', Txt ''*'', Txt '' FROM '', Txt ''designs'', Txt '' WHERE '',
         Txt ''fabric'', Txt '' = '', Ph 1, Txt '' '', Txt ''AND'', Txt '' '',
         Txt ''status'', Txt '' IS NULL'', Txt '' '', Txt ''AND'', Txt '' '',
         Txt ''client'', Txt '' = '', Ph 2],
        [JStr ''Cotton'', JStr ''John Doe''])"
    by code_simp
  have r: "render [Txt ''SELECT '', Txt ''*'', Txt '' FROM '', Txt ''designs'', Txt '' WHERE '',
         Txt ''fabric'', Txt '' = '', Ph 1, Txt '' '', Txt ''AND'', Txt '' '',
         Txt ''status'', Txt '' IS NULL'', Txt '' '', Txt ''AND'', Txt '' '',
         Txt ''client'', Txt '' = '', Ph 2]
       = ''SELECT * FROM designs WHERE fabric = $1 AND status IS NULL AND client = $2''"
    by code_simp
  have er: "render (fst (find_statement ''designs''
          [(''fabric'', JStr ''Cotton''), (''status'', JNull), (''client'', JStr ''John Doe'')] []))
       = ''SELECT * FROM designs WHERE fabric = $1 AND status IS NULL AND client = $2''"
    by (simp only: e fst_conv r)
  have e2: "find_statement ''designs'' [(''status'', JNull)] []
     = ([Txt ''SELECT '', Txt ''*'', Txt '' FROM '', Txt ''designs'', Txt '' WHERE '',
         Txt ''status'', Txt '' IS NULL''], [])"
    by code_simp
  have r2: "render [Txt ''SELECT '', Txt ''*'', Txt '' FROM '', Txt ''designs'', Txt '' WHERE '',
         Txt ''status'', Txt '' IS NULL'']
       = ''SELECT * FROM designs WHERE status IS NULL''"
    by code_simp
  have er2: "render (fst (find_statement ''designs'' [(''status'', JNull)] []))
       = ''SELECT * FROM designs WHERE status IS NULL''"
    by (simp only: e2 fst_conv r2)
  show ?thesis
    using null_clause[of "''status''" 1
        "[(''fabric'', JStr ''Cotton''), (''status'', JNull), (''client'', JStr ''John Doe'')]"
        "[(''fabric'', JStr ''Cotton'')]" "[(''client'', JStr ''John Doe'')]" "''designs''" "[]"]
      null_clause[of "''status''" 1 "[(''status'', JNull)]" "[]" "[]" "''designs''" "[]"]
    by (simp add: er er2 find_statement_values find_values_Cons[where pc=1] find_condition_def
        limit_of_def offset_of_def with_default_def js_get_def)
qed

end
